theory Spec2Isabelle
  imports Main "HOL-Library.Word"
begin

section \<open>The configuration consumed by the storage pipeline\<close>

text \<open>
  Modelled from the spec: the declarations of package \<open>config\<close> are not among the sources.
  The records below hold the entities of the data model with the fields that
  \<open>src/exec/storage.go\<close>, \<open>src/exec/stages/storage/storage.go\<close> and the unit helpers of
  package \<open>util\<close> read, under the names the code uses. Field names carry the name of
  their struct as a prefix, since several structs share \<open>Name\<close>, \<open>Device\<close> and
  \<open>Contents\<close>. Go's \<open>int\<close> is taken at 64 bits where the code computes with it
  (\<open>Spares\<close>); sizes and offsets are the \<open>uint64\<close> the code converts them to; values that
  are only passed on are kept as they are.
\<close>

record Partition =
  Partition_Label :: string
  Partition_Number :: int
  Partition_Size :: "64 word"
  Partition_Start :: "64 word"
  Partition_TypeGUID :: string

record Disk =
  Disk_Device :: string
  Disk_WipeTable :: bool
  Disk_Partitions :: "Partition list"

record Raid =
  Raid_Name :: string
  Raid_Level :: string
  Raid_Devices :: "string list"
  Raid_Spares :: "64 word"

record File =
  File_Path :: string
  File_Contents :: string
  File_Mode :: nat
  File_Uid :: int
  File_Gid :: int

record Filesystem =
  Filesystem_Device :: string
  Filesystem_Format :: string
  Filesystem_Initialize :: bool
  Filesystem_Options :: "string list"
  Filesystem_Files :: "File list"

record SystemdUnitDropIn =
  DropIn_Name :: string
  DropIn_Contents :: string

record SystemdUnit =
  SystemdUnit_Name :: string
  SystemdUnit_Enable :: bool
  SystemdUnit_Mask :: bool
  SystemdUnit_Contents :: string
  SystemdUnit_DropIns :: "SystemdUnitDropIn list"

record NetworkdUnit =
  NetworkdUnit_Name :: string
  NetworkdUnit_Contents :: string

record Storage =
  Disks :: "Disk list"
  Arrays :: "Raid list"
  Filesystems :: "Filesystem list"

record Systemd =
  Systemd_Units :: "SystemdUnit list"

record Networkd =
  Networkd_Units :: "NetworkdUnit list"

record Config =
  Config_Storage :: Storage
  Config_Systemd :: Systemd
  Config_Networkd :: Networkd

text \<open>\<open>sgdisk.Partition\<close>, the argument of \<open>op.CreatePartition\<close>.\<close>

record sgdisk_Partition =
  sgdisk_Number :: int
  sgdisk_Length :: "64 word"
  sgdisk_Offset :: "64 word"
  sgdisk_Label :: string
  sgdisk_TypeGUID :: string

section \<open>Errors, calls to collaborators, and the trace\<close>

text \<open>
  Go's \<open>error\<close> values. \<open>External\<close> is an error handed back by a collaborator (the
  device waiter, sgdisk, a child process, a system call, the file writer); every other
  constructor is one \<open>fmt.Errorf\<close> of the source and keeps its arguments:
  \<^item> \<open>WaitFailed ctxt err\<close>: "failed to wait on %s devs: %v"
  \<^item> \<open>CommitFailure err\<close>: "commit failure: %v"
  \<^item> \<open>MdadmFailed err\<close>: "mdadm failed: %v"
  \<^item> \<open>UnsupportedFormat format\<close>: "unsupported filesystem format: %q"
  \<^item> \<open>MkfsFailed mkfs err args\<close>: "failed to run %q: %v %v"
  \<^item> \<open>CreateFilesFailed device err\<close>: "failed to create files %q: %v"
  \<^item> \<open>TempDirFailed err\<close>: "failed to create temp directory: %v"
  \<^item> \<open>MountFailed dev mnt err\<close>: "failed to mount device %q at %q: %v"
  \<^item> \<open>CreateFileFailed path err\<close>: "failed to create file %q: %v"
\<close>

datatype error =
    External string
  | WaitFailed string error
  | CommitFailure error
  | MdadmFailed error
  | UnsupportedFormat string
  | MkfsFailed string error "string list"
  | CreateFilesFailed string error
  | TempDirFailed error
  | MountFailed string string error
  | CreateFileFailed string error

text \<open>The arguments of a log line: a string, a list of strings (\<open>%v\<close> of a slice), an error.\<close>

datatype arg = S string | L "string list" | E error

datatype openflag = O_RDWR | O_APPEND | O_CREATE

text \<open>
  Everything the pipeline does to the host is a call to a collaborator that is not part of
  the sources at hand: the logger, \<open>systemd.WaitOnDevices\<close>, package \<open>sgdisk\<close>,
  \<open>exec.Command\<close>, \<open>ioutil.TempDir\<close>, \<open>syscall.Mount\<close> and \<open>Unmount\<close>, \<open>os.Remove\<close>,
  \<open>WriteFile\<close> and \<open>mkdirForFile\<close> of package \<open>util\<close>, and the \<open>os\<close> file calls of
  \<open>EnableUnit\<close> and \<open>MaskUnit\<close>. Each call is an event with its arguments.
\<close>

datatype event =
    PushPrefix string
  | PopPrefix
  | Info string "arg list"
  | Crit string "arg list"
  | OpStart string "arg list"
  | OpFinish string "arg list"
  | OpFail string "arg list" error
  | WaitOnDevices "string list" string
  | SgdiskBegin string
  | SgdiskWipeTable string bool
  | SgdiskCreatePartition string sgdisk_Partition
  | SgdiskCommit string
  | Command string "string list"
  | TempDir string string
  | Mount string string string nat string
  | Unmount string nat
  | Remove string
  | WriteFile string File
  | MkdirForFile string
  | OpenFile string "openflag list" nat
  | WriteString string string
  | Close string
  | Symlink string string

text \<open>The trace: every call made so far, in order, each with the error it returned.\<close>

type_synonym trace = "(event \<times> error option) list"

text \<open>
  The host. \<open>outcome\<close> decides, from the calls made so far, whether a call fails and with
  which error; \<open>tempname\<close> is the directory \<open>ioutil.TempDir\<close> creates when it succeeds.
  The remaining fields are the path helpers and constants of package \<open>util\<close> that the unit
  helpers use and whose declarations are not among the sources: they are parameters.
\<close>

record world =
  outcome :: "trace \<Rightarrow> event \<Rightarrow> error option"
  tempname :: "trace \<Rightarrow> string"
  JoinPath :: "string \<Rightarrow> string list \<Rightarrow> string"
  Join :: "string list \<Rightarrow> string"
  SystemdUnitsPath :: string
  NetworkdUnitsPath :: string
  SystemdDropinsPath :: "string \<Rightarrow> string"
  DefaultFilePermissions :: nat

text \<open>A result of a function that returns \<open>error\<close>: the error (\<open>None\<close> is \<open>nil\<close>) and the trace.\<close>

type_synonym result = "error option \<times> trace"

definition call :: "world \<Rightarrow> event \<Rightarrow> trace \<Rightarrow> result" where
  "call w ev tr = (outcome w tr ev, tr @ [(ev, outcome w tr ev)])"

text \<open>A call whose result the code does not read, or that returns none.\<close>

definition emit :: "event \<Rightarrow> trace \<Rightarrow> trace" where
  "emit ev tr = tr @ [(ev, None)]"

text \<open>
  Modelled from the spec: \<open>Logger.LogOp\<close> and \<open>Logger.LogCmd\<close> of package \<open>log\<close> are not
  among the sources. The spec describes the wrapper as "log this operation, with this
  description, and its own failure": the operation is announced, run, and its failure or
  completion logged; its error is returned unchanged. \<open>LogCmd\<close> does so for a child
  process.
\<close>

definition LogOp :: "(trace \<Rightarrow> result) \<Rightarrow> string \<Rightarrow> arg list \<Rightarrow> trace \<Rightarrow> result" where
  "LogOp op format a tr =
     (case op (emit (OpStart format a) tr) of
        (Some err, tr') \<Rightarrow> (Some err, emit (OpFail format a err) tr')
      | (None, tr') \<Rightarrow> (None, emit (OpFinish format a) tr'))"

definition LogCmd :: "world \<Rightarrow> string \<Rightarrow> string list \<Rightarrow> string \<Rightarrow> arg list \<Rightarrow> trace \<Rightarrow> result" where
  "LogCmd w name args format a tr = LogOp (call w (Command name args)) format a tr"

section \<open>The partition phase\<close>

definition waitOnDevices :: "world \<Rightarrow> string list \<Rightarrow> string \<Rightarrow> trace \<Rightarrow> result" where
  "waitOnDevices w devs ctxt tr =
     (case LogOp (call w (WaitOnDevices devs ctxt)) ''waiting for devices %v'' [L devs] tr of
        (Some err, tr') \<Rightarrow> (Some (WaitFailed ctxt err), tr')
      | (None, tr') \<Rightarrow> (None, tr'))"

definition toSgdisk :: "Partition \<Rightarrow> sgdisk_Partition" where
  "toSgdisk part =
     \<lparr>sgdisk_Number = Partition_Number part,
      sgdisk_Length = Partition_Size part,
      sgdisk_Offset = Partition_Start part,
      sgdisk_Label = Partition_Label part,
      sgdisk_TypeGUID = Partition_TypeGUID part\<rparr>"

text \<open>The inner loop of \<open>createPartitions\<close>: \<open>op.CreatePartition\<close> for every partition.\<close>

fun createPartitions_parts :: "string \<Rightarrow> Partition list \<Rightarrow> trace \<Rightarrow> trace" where
  "createPartitions_parts dev [] tr = tr"
| "createPartitions_parts dev (part # parts) tr =
     createPartitions_parts dev parts (emit (SgdiskCreatePartition dev (toSgdisk part)) tr)"

text \<open>The function literal that \<open>createPartitions\<close> hands to \<open>LogOp\<close> for one disk.\<close>

definition createPartitions_op :: "world \<Rightarrow> Disk \<Rightarrow> trace \<Rightarrow> result" where
  "createPartitions_op w dev tr =
     (let t1 = emit (SgdiskBegin (Disk_Device dev)) tr;
          t2 = (if Disk_WipeTable dev
                then emit (SgdiskWipeTable (Disk_Device dev) True)
                       (emit (Info ''wiping partition table requested on %q'' [S (Disk_Device dev)]) t1)
                else t1);
          t3 = createPartitions_parts (Disk_Device dev) (Disk_Partitions dev) t2
      in case call w (SgdiskCommit (Disk_Device dev)) t3 of
           (Some err, t4) \<Rightarrow> (Some (CommitFailure err), t4)
         | (None, t4) \<Rightarrow> (None, t4))"

text \<open>The outer loop of \<open>createPartitions\<close>, over the disks.\<close>

fun createPartitions_disks :: "world \<Rightarrow> Disk list \<Rightarrow> trace \<Rightarrow> result" where
  "createPartitions_disks w [] tr = (None, tr)"
| "createPartitions_disks w (dev # devs) tr =
     (case LogOp (createPartitions_op w dev) ''partitioning %q'' [S (Disk_Device dev)] tr of
        (Some err, tr') \<Rightarrow> (Some err, tr')
      | (None, tr') \<Rightarrow> createPartitions_disks w devs tr')"

definition createPartitions :: "world \<Rightarrow> Config \<Rightarrow> trace \<Rightarrow> result" where
  "createPartitions w config tr =
     (if length (Disks (Config_Storage config)) = 0 then (None, tr)
      else
        let t0 = emit (PushPrefix ''createPartitions'') tr;
            devs = map Disk_Device (Disks (Config_Storage config))
        in case (case waitOnDevices w devs ''disks'' t0 of
                   (Some err, t1) \<Rightarrow> (Some err, t1)
                 | (None, t1) \<Rightarrow> createPartitions_disks w (Disks (Config_Storage config)) t1) of
             (r, t2) \<Rightarrow> (r, emit PopPrefix t2))"


section \<open>The RAID phase\<close>

text \<open>
  \<open>fmt.Sprintf("%d", n)\<close> for a Go \<open>int\<close>: the decimal numeral of the signed value of \<open>n\<close>,
  with a minus sign when it is negative.
\<close>

function decimal :: "nat \<Rightarrow> string" where
  "decimal n = (if n < 10 then [''0123456789'' ! n] else decimal (n div 10) @ [''0123456789'' ! (n mod 10)])"
  by pat_completeness auto
termination
  by (relation "measure id") auto

definition itoa :: "int \<Rightarrow> string" where
  "itoa i = (if i < 0 then CHR ''-'' # decimal (nat (- i)) else decimal (nat i))"

definition Sprintf_d :: "64 word \<Rightarrow> string" where
  "Sprintf_d n = itoa (sint n)"

text \<open>The loop of \<open>createRaids\<close> that appends the member devices to the arguments.\<close>

fun createRaids_devs :: "string list \<Rightarrow> string list \<Rightarrow> string list" where
  "createRaids_devs args [] = args"
| "createRaids_devs args (dev # devs) = createRaids_devs (args @ [dev]) devs"

text \<open>The argument list \<open>createRaids\<close> builds for one array.\<close>

definition createRaids_args :: "Raid \<Rightarrow> string list" where
  "createRaids_args md =
     (let args = [''--create'', Raid_Name md,
                  ''--force'',
                  ''--run'',
                  ''--level'', Raid_Level md,
                  ''--raid-devices'', Sprintf_d (word_of_nat (length (Raid_Devices md)) - Raid_Spares md)];
          args' = (if 0 < sint (Raid_Spares md)
                   then args @ [''--spare-devices'', Sprintf_d (Raid_Spares md)]
                   else args)
      in createRaids_devs args' (Raid_Devices md))"

fun createRaids_arrays :: "world \<Rightarrow> Raid list \<Rightarrow> trace \<Rightarrow> result" where
  "createRaids_arrays w [] tr = (None, tr)"
| "createRaids_arrays w (md # mds) tr =
     (case LogCmd w ''/sbin/mdadm'' (createRaids_args md) ''creating %q'' [S (Raid_Name md)] tr of
        (Some err, tr') \<Rightarrow> (Some (MdadmFailed err), tr')
      | (None, tr') \<Rightarrow> createRaids_arrays w mds tr')"

definition createRaids :: "world \<Rightarrow> Config \<Rightarrow> trace \<Rightarrow> result" where
  "createRaids w config tr =
     (if length (Arrays (Config_Storage config)) = 0 then (None, tr)
      else
        let t0 = emit (PushPrefix ''createRaids'') tr;
            devs = concat (map Raid_Devices (Arrays (Config_Storage config)))
        in case (case waitOnDevices w devs ''raids'' t0 of
                   (Some err, t1) \<Rightarrow> (Some err, t1)
                 | (None, t1) \<Rightarrow> createRaids_arrays w (Arrays (Config_Storage config)) t1) of
             (r, t2) \<Rightarrow> (r, emit PopPrefix t2))"

section \<open>The filesystem phase\<close>

text \<open>The loop of \<open>createFiles\<close> over the files, writing each below the mount point.\<close>

fun createFiles_files :: "world \<Rightarrow> string \<Rightarrow> File list \<Rightarrow> trace \<Rightarrow> result" where
  "createFiles_files w mnt [] tr = (None, tr)"
| "createFiles_files w mnt (f # fs) tr =
     (case LogOp (call w (WriteFile mnt f)) ''writing file %q'' [S (File_Path f)] tr of
        (Some err, tr') \<Rightarrow> (Some (CreateFileFailed (File_Path f) err), tr')
      | (None, tr') \<Rightarrow> createFiles_files w mnt fs tr')"

text \<open>
  \<open>createFiles\<close>. The three deferred calls run when the function returns, last registered
  first: the unmount (registered only after the mount returned no error), then
  \<open>os.Remove\<close> of the directory, then \<open>PopPrefix\<close>. The results of the deferred calls
  are dropped.
\<close>

definition createFiles :: "world \<Rightarrow> Filesystem \<Rightarrow> trace \<Rightarrow> result" where
  "createFiles w fs tr =
     (if length (Filesystem_Files fs) = 0 then (None, tr)
      else
        let t0 = emit (PushPrefix ''createFiles'') tr
        in case (case call w (TempDir [] ''ignition-files'') t0 of
                   (Some err, t1) \<Rightarrow> (Some (TempDirFailed err), t1)
                 | (None, t1) \<Rightarrow>
                     let mnt = tempname w t0;
                         dev = Filesystem_Device fs;
                         format = Filesystem_Format fs
                     in case (case LogOp (call w (Mount dev mnt format 0 []))
                                     ''mounting %q at %q'' [S dev, S mnt] t1 of
                                (Some err, t2) \<Rightarrow> (Some (MountFailed dev mnt err), t2)
                              | (None, t2) \<Rightarrow>
                                  (case createFiles_files w mnt (Filesystem_Files fs) t2 of
                                     (r, t3) \<Rightarrow>
                                       (r, snd (LogOp (call w (Unmount mnt 0))
                                                  ''unmounting %q at %q'' [S dev, S mnt] t3)))) of
                          (r, t4) \<Rightarrow> (r, snd (call w (Remove mnt) t4))) of
             (r, t5) \<Rightarrow> (r, emit PopPrefix t5))"

text \<open>The body of \<open>if fs.Initialize\<close> in \<open>createFilesystems\<close>: choose the formatter and run it.\<close>

definition createFilesystems_mkfs :: "world \<Rightarrow> Filesystem \<Rightarrow> trace \<Rightarrow> result" where
  "createFilesystems_mkfs w fs tr =
     (case (if Filesystem_Format fs = ''btrfs''
            then Inr (''/sbin/mkfs.btrfs'', Filesystem_Options fs @ [''--force''])
            else if Filesystem_Format fs = ''ext4''
            then Inr (''/sbin/mkfs.ext4'', Filesystem_Options fs @ [''-F''])
            else Inl (UnsupportedFormat (Filesystem_Format fs))) of
        Inl err \<Rightarrow> (Some err, tr)
      | Inr (mkfs, args0) \<Rightarrow>
          (let args = args0 @ [Filesystem_Device fs]
           in (case LogCmd w mkfs args ''creating %q filesystem on %q''
                      [S (Filesystem_Format fs), S (Filesystem_Device fs)] tr of
                 (Some err, tr') \<Rightarrow> (Some (MkfsFailed mkfs err args), tr')
               | (None, tr') \<Rightarrow> (None, tr'))))"

text \<open>One round of the loop of \<open>createFilesystems\<close>.\<close>

definition createFilesystems_fs :: "world \<Rightarrow> Filesystem \<Rightarrow> trace \<Rightarrow> result" where
  "createFilesystems_fs w fs tr =
     (case (if Filesystem_Initialize fs then createFilesystems_mkfs w fs tr else (None, tr)) of
        (Some err, t1) \<Rightarrow> (Some err, t1)
      | (None, t1) \<Rightarrow>
          (case createFiles w fs t1 of
             (Some err, t2) \<Rightarrow> (Some (CreateFilesFailed (Filesystem_Device fs) err), t2)
           | (None, t2) \<Rightarrow> (None, t2)))"

fun createFilesystems_loop :: "world \<Rightarrow> Filesystem list \<Rightarrow> trace \<Rightarrow> result" where
  "createFilesystems_loop w [] tr = (None, tr)"
| "createFilesystems_loop w (fs # fss) tr =
     (case createFilesystems_fs w fs tr of
        (Some err, tr') \<Rightarrow> (Some err, tr')
      | (None, tr') \<Rightarrow> createFilesystems_loop w fss tr')"

definition createFilesystems :: "world \<Rightarrow> Config \<Rightarrow> trace \<Rightarrow> result" where
  "createFilesystems w config tr =
     (if length (Filesystems (Config_Storage config)) = 0 then (None, tr)
      else
        let t0 = emit (PushPrefix ''createFilesystems'') tr;
            devs = map Filesystem_Device (Filesystems (Config_Storage config))
        in case (case waitOnDevices w devs ''filesystems'' t0 of
                   (Some err, t1) \<Rightarrow> (Some err, t1)
                 | (None, t1) \<Rightarrow> createFilesystems_loop w (Filesystems (Config_Storage config)) t1) of
             (r, t2) \<Rightarrow> (r, emit PopPrefix t2))"

section \<open>The unit phase\<close>

text \<open>The struct \<open>storage\<close>: its embedded \<open>util.DestDir\<close> is the root the units are written to.\<close>

record storage =
  DestDir :: string

definition presetPath :: string where
  "presetPath = ''/etc/systemd/system-preset/20-ignition.preset''"

text \<open>\<open>DefaultPresetPermissions\<close> is octal 0644.\<close>

definition DefaultPresetPermissions :: nat where
  "DefaultPresetPermissions = 6 * 64 + 4 * 8 + 4"

definition FileFromSystemdUnit :: "world \<Rightarrow> SystemdUnit \<Rightarrow> File" where
  "FileFromSystemdUnit w unit =
     \<lparr>File_Path = Join w [SystemdUnitsPath w, SystemdUnit_Name unit],
      File_Contents = SystemdUnit_Contents unit,
      File_Mode = DefaultFilePermissions w,
      File_Uid = 0,
      File_Gid = 0\<rparr>"

definition FileFromNetworkdUnit :: "world \<Rightarrow> NetworkdUnit \<Rightarrow> File" where
  "FileFromNetworkdUnit w unit =
     \<lparr>File_Path = Join w [NetworkdUnitsPath w, NetworkdUnit_Name unit],
      File_Contents = NetworkdUnit_Contents unit,
      File_Mode = DefaultFilePermissions w,
      File_Uid = 0,
      File_Gid = 0\<rparr>"

definition FileFromUnitDropin :: "world \<Rightarrow> SystemdUnit \<Rightarrow> SystemdUnitDropIn \<Rightarrow> File" where
  "FileFromUnitDropin w unit dropin =
     \<lparr>File_Path = Join w [SystemdDropinsPath w (SystemdUnit_Name unit), DropIn_Name dropin],
      File_Contents = DropIn_Contents dropin,
      File_Mode = DefaultFilePermissions w,
      File_Uid = 0,
      File_Gid = 0\<rparr>"

definition MaskUnit :: "world \<Rightarrow> string \<Rightarrow> SystemdUnit \<Rightarrow> trace \<Rightarrow> result" where
  "MaskUnit w d unit tr =
     (let path = JoinPath w d [SystemdUnitsPath w, SystemdUnit_Name unit]
      in case call w (MkdirForFile path) tr of
           (Some err, t1) \<Rightarrow> (Some err, t1)
         | (None, t1) \<Rightarrow> call w (Symlink ''/dev/null'' path) t1)"

text \<open>\<open>EnableUnit\<close>; the deferred \<open>file.Close()\<close> runs once the file is open.\<close>

definition EnableUnit :: "world \<Rightarrow> string \<Rightarrow> SystemdUnit \<Rightarrow> trace \<Rightarrow> result" where
  "EnableUnit w d unit tr =
     (let path = JoinPath w d [presetPath]
      in case call w (MkdirForFile path) tr of
           (Some err, t1) \<Rightarrow> (Some err, t1)
         | (None, t1) \<Rightarrow>
             (case call w (OpenFile path [O_RDWR, O_APPEND, O_CREATE] DefaultPresetPermissions) t1 of
                (Some err, t2) \<Rightarrow> (Some err, t2)
              | (None, t2) \<Rightarrow>
                  (case call w (WriteString path (''enable '' @ SystemdUnit_Name unit @ [CHR 0x0A])) t2 of
                     (r, t3) \<Rightarrow> (r, emit (Close path) t3))))"

fun writeSystemdUnit_dropins ::
  "world \<Rightarrow> storage \<Rightarrow> SystemdUnit \<Rightarrow> SystemdUnitDropIn list \<Rightarrow> trace \<Rightarrow> result" where
  "writeSystemdUnit_dropins w s unit [] tr = (None, tr)"
| "writeSystemdUnit_dropins w s unit (dropin # dropins) tr =
     (if DropIn_Contents dropin = [] then writeSystemdUnit_dropins w s unit dropins tr
      else
        let f = FileFromUnitDropin w unit dropin
        in case LogOp (call w (WriteFile (DestDir s) f)) ''writing dropin %q at %q''
                  [S (DropIn_Name dropin), S (File_Path f)] tr of
             (Some err, tr') \<Rightarrow> (Some err, tr')
           | (None, tr') \<Rightarrow> writeSystemdUnit_dropins w s unit dropins tr')"

definition writeSystemdUnit :: "world \<Rightarrow> storage \<Rightarrow> SystemdUnit \<Rightarrow> trace \<Rightarrow> result" where
  "writeSystemdUnit w s unit tr =
     LogOp (\<lambda>t0.
        case writeSystemdUnit_dropins w s unit (SystemdUnit_DropIns unit) t0 of
          (Some err, t1) \<Rightarrow> (Some err, t1)
        | (None, t1) \<Rightarrow>
            if SystemdUnit_Contents unit = [] then (None, t1)
            else
              let f = FileFromSystemdUnit w unit
              in LogOp (call w (WriteFile (DestDir s) f)) ''writing unit %q at %q''
                   [S (SystemdUnit_Name unit), S (File_Path f)] t1)
       ''writing unit %q'' [S (SystemdUnit_Name unit)] tr"

definition writeNetworkdUnit :: "world \<Rightarrow> storage \<Rightarrow> NetworkdUnit \<Rightarrow> trace \<Rightarrow> result" where
  "writeNetworkdUnit w s unit tr =
     LogOp (\<lambda>t0.
        if NetworkdUnit_Contents unit = [] then (None, t0)
        else
          let f = FileFromNetworkdUnit w unit
          in LogOp (call w (WriteFile (DestDir s) f)) ''writing unit %q at %q''
               [S (NetworkdUnit_Name unit), S (File_Path f)] t0)
       ''writing unit %q'' [S (NetworkdUnit_Name unit)] tr"

text \<open>One round of the first loop of \<open>createUnits\<close>: write the unit, then enable, then mask.\<close>

definition createUnits_unit :: "world \<Rightarrow> storage \<Rightarrow> SystemdUnit \<Rightarrow> trace \<Rightarrow> result" where
  "createUnits_unit w s unit tr =
     (case writeSystemdUnit w s unit tr of
        (Some err, t1) \<Rightarrow> (Some err, t1)
      | (None, t1) \<Rightarrow>
          (case (if SystemdUnit_Enable unit
                 then LogOp (EnableUnit w (DestDir s) unit) ''enabling unit %q'' [S (SystemdUnit_Name unit)] t1
                 else (None, t1)) of
             (Some err, t2) \<Rightarrow> (Some err, t2)
           | (None, t2) \<Rightarrow>
               (if SystemdUnit_Mask unit
                then LogOp (MaskUnit w (DestDir s) unit) ''masking unit %q'' [S (SystemdUnit_Name unit)] t2
                else (None, t2))))"

fun createUnits_systemd :: "world \<Rightarrow> storage \<Rightarrow> SystemdUnit list \<Rightarrow> trace \<Rightarrow> result" where
  "createUnits_systemd w s [] tr = (None, tr)"
| "createUnits_systemd w s (unit # units) tr =
     (case createUnits_unit w s unit tr of
        (Some err, tr') \<Rightarrow> (Some err, tr')
      | (None, tr') \<Rightarrow> createUnits_systemd w s units tr')"

fun createUnits_networkd :: "world \<Rightarrow> storage \<Rightarrow> NetworkdUnit list \<Rightarrow> trace \<Rightarrow> result" where
  "createUnits_networkd w s [] tr = (None, tr)"
| "createUnits_networkd w s (unit # units) tr =
     (case writeNetworkdUnit w s unit tr of
        (Some err, tr') \<Rightarrow> (Some err, tr')
      | (None, tr') \<Rightarrow> createUnits_networkd w s units tr')"

definition createUnits :: "world \<Rightarrow> storage \<Rightarrow> Config \<Rightarrow> trace \<Rightarrow> result" where
  "createUnits w s config tr =
     (case createUnits_systemd w s (Systemd_Units (Config_Systemd config)) tr of
        (Some err, t1) \<Rightarrow> (Some err, t1)
      | (None, t1) \<Rightarrow> createUnits_networkd w s (Networkd_Units (Config_Networkd config)) t1)"

section \<open>The pipeline\<close>

text \<open>\<open>storage.Run\<close> of \<open>src/exec/storage.go\<close>: the outcome reported to the caller and the trace.\<close>

definition Run :: "world \<Rightarrow> storage \<Rightarrow> Config \<Rightarrow> trace \<Rightarrow> bool \<times> trace" where
  "Run w s config tr =
     (case createPartitions w config tr of
        (Some err, t1) \<Rightarrow> (False, emit (Crit ''create partitions failed: %v'' [E err]) t1)
      | (None, t1) \<Rightarrow>
     (case createRaids w config t1 of
        (Some err, t2) \<Rightarrow> (False, emit (Crit ''failed to create raids: %v'' [E err]) t2)
      | (None, t2) \<Rightarrow>
     (case createFilesystems w config t2 of
        (Some err, t3) \<Rightarrow> (False, emit (Crit ''failed to create filesystems: %v'' [E err]) t3)
      | (None, t3) \<Rightarrow>
     (case createUnits w s config t3 of
        (Some err, t4) \<Rightarrow> (False, emit (Crit ''failed to create units: %v'' [E err]) t4)
      | (None, t4) \<Rightarrow> (True, t4)))))"

section \<open>The stage of \<open>src/exec/stages/storage/storage.go\<close>\<close>

text \<open>
  The second pipeline of the repository, translated from its own source file. Its methods
  reach the logger through the embedded \<open>util.Util\<close>, and \<open>createFiles\<close> writes through
  a \<open>util.Util\<close> whose \<open>DestDir\<close> is the mount point. Its \<open>Run\<close> has three phases.
\<close>

definition stage_waitOnDevices :: "world \<Rightarrow> string list \<Rightarrow> string \<Rightarrow> trace \<Rightarrow> result" where
  "stage_waitOnDevices w devs ctxt tr =
     (case LogOp (call w (WaitOnDevices devs ctxt)) ''waiting for devices %v'' [L devs] tr of
        (Some err, tr') \<Rightarrow> (Some (WaitFailed ctxt err), tr')
      | (None, tr') \<Rightarrow> (None, tr'))"

fun stage_createPartitions_parts :: "string \<Rightarrow> Partition list \<Rightarrow> trace \<Rightarrow> trace" where
  "stage_createPartitions_parts dev [] tr = tr"
| "stage_createPartitions_parts dev (part # parts) tr =
     stage_createPartitions_parts dev parts (emit (SgdiskCreatePartition dev (toSgdisk part)) tr)"

definition stage_createPartitions_op :: "world \<Rightarrow> Disk \<Rightarrow> trace \<Rightarrow> result" where
  "stage_createPartitions_op w dev tr =
     (let t1 = emit (SgdiskBegin (Disk_Device dev)) tr;
          t2 = (if Disk_WipeTable dev
                then emit (SgdiskWipeTable (Disk_Device dev) True)
                       (emit (Info ''wiping partition table requested on %q'' [S (Disk_Device dev)]) t1)
                else t1);
          t3 = stage_createPartitions_parts (Disk_Device dev) (Disk_Partitions dev) t2
      in case call w (SgdiskCommit (Disk_Device dev)) t3 of
           (Some err, t4) \<Rightarrow> (Some (CommitFailure err), t4)
         | (None, t4) \<Rightarrow> (None, t4))"

fun stage_createPartitions_disks :: "world \<Rightarrow> Disk list \<Rightarrow> trace \<Rightarrow> result" where
  "stage_createPartitions_disks w [] tr = (None, tr)"
| "stage_createPartitions_disks w (dev # devs) tr =
     (case LogOp (stage_createPartitions_op w dev) ''partitioning %q'' [S (Disk_Device dev)] tr of
        (Some err, tr') \<Rightarrow> (Some err, tr')
      | (None, tr') \<Rightarrow> stage_createPartitions_disks w devs tr')"

definition stage_createPartitions :: "world \<Rightarrow> Config \<Rightarrow> trace \<Rightarrow> result" where
  "stage_createPartitions w config tr =
     (if length (Disks (Config_Storage config)) = 0 then (None, tr)
      else
        let t0 = emit (PushPrefix ''createPartitions'') tr;
            devs = map Disk_Device (Disks (Config_Storage config))
        in case (case stage_waitOnDevices w devs ''disks'' t0 of
                   (Some err, t1) \<Rightarrow> (Some err, t1)
                 | (None, t1) \<Rightarrow> stage_createPartitions_disks w (Disks (Config_Storage config)) t1) of
             (r, t2) \<Rightarrow> (r, emit PopPrefix t2))"


fun stage_createRaids_devs :: "string list \<Rightarrow> string list \<Rightarrow> string list" where
  "stage_createRaids_devs args [] = args"
| "stage_createRaids_devs args (dev # devs) = stage_createRaids_devs (args @ [dev]) devs"

definition stage_createRaids_args :: "Raid \<Rightarrow> string list" where
  "stage_createRaids_args md =
     (let args = [''--create'', Raid_Name md,
                  ''--force'',
                  ''--run'',
                  ''--level'', Raid_Level md,
                  ''--raid-devices'', Sprintf_d (word_of_nat (length (Raid_Devices md)) - Raid_Spares md)];
          args' = (if 0 < sint (Raid_Spares md)
                   then args @ [''--spare-devices'', Sprintf_d (Raid_Spares md)]
                   else args)
      in stage_createRaids_devs args' (Raid_Devices md))"

fun stage_createRaids_arrays :: "world \<Rightarrow> Raid list \<Rightarrow> trace \<Rightarrow> result" where
  "stage_createRaids_arrays w [] tr = (None, tr)"
| "stage_createRaids_arrays w (md # mds) tr =
     (case LogCmd w ''/sbin/mdadm'' (stage_createRaids_args md) ''creating %q'' [S (Raid_Name md)] tr of
        (Some err, tr') \<Rightarrow> (Some (MdadmFailed err), tr')
      | (None, tr') \<Rightarrow> stage_createRaids_arrays w mds tr')"

definition stage_createRaids :: "world \<Rightarrow> Config \<Rightarrow> trace \<Rightarrow> result" where
  "stage_createRaids w config tr =
     (if length (Arrays (Config_Storage config)) = 0 then (None, tr)
      else
        let t0 = emit (PushPrefix ''createRaids'') tr;
            devs = concat (map Raid_Devices (Arrays (Config_Storage config)))
        in case (case stage_waitOnDevices w devs ''raids'' t0 of
                   (Some err, t1) \<Rightarrow> (Some err, t1)
                 | (None, t1) \<Rightarrow> stage_createRaids_arrays w (Arrays (Config_Storage config)) t1) of
             (r, t2) \<Rightarrow> (r, emit PopPrefix t2))"

fun stage_createFiles_files :: "world \<Rightarrow> string \<Rightarrow> File list \<Rightarrow> trace \<Rightarrow> result" where
  "stage_createFiles_files w mnt [] tr = (None, tr)"
| "stage_createFiles_files w mnt (f # fs) tr =
     (case LogOp (call w (WriteFile mnt f)) ''writing file %q'' [S (File_Path f)] tr of
        (Some err, tr') \<Rightarrow> (Some (CreateFileFailed (File_Path f) err), tr')
      | (None, tr') \<Rightarrow> stage_createFiles_files w mnt fs tr')"

definition stage_createFiles :: "world \<Rightarrow> Filesystem \<Rightarrow> trace \<Rightarrow> result" where
  "stage_createFiles w fs tr =
     (if length (Filesystem_Files fs) = 0 then (None, tr)
      else
        let t0 = emit (PushPrefix ''createFiles'') tr
        in case (case call w (TempDir [] ''ignition-files'') t0 of
                   (Some err, t1) \<Rightarrow> (Some (TempDirFailed err), t1)
                 | (None, t1) \<Rightarrow>
                     let mnt = tempname w t0;
                         dev = Filesystem_Device fs;
                         format = Filesystem_Format fs
                     in case (case LogOp (call w (Mount dev mnt format 0 []))
                                     ''mounting %q at %q'' [S dev, S mnt] t1 of
                                (Some err, t2) \<Rightarrow> (Some (MountFailed dev mnt err), t2)
                              | (None, t2) \<Rightarrow>
                                  (case stage_createFiles_files w mnt (Filesystem_Files fs) t2 of
                                     (r, t3) \<Rightarrow>
                                       (r, snd (LogOp (call w (Unmount mnt 0))
                                                  ''unmounting %q at %q'' [S dev, S mnt] t3)))) of
                          (r, t4) \<Rightarrow> (r, snd (call w (Remove mnt) t4))) of
             (r, t5) \<Rightarrow> (r, emit PopPrefix t5))"

definition stage_createFilesystems_mkfs :: "world \<Rightarrow> Filesystem \<Rightarrow> trace \<Rightarrow> result" where
  "stage_createFilesystems_mkfs w fs tr =
     (case (if Filesystem_Format fs = ''btrfs''
            then Inr (''/sbin/mkfs.btrfs'', Filesystem_Options fs @ [''--force''])
            else if Filesystem_Format fs = ''ext4''
            then Inr (''/sbin/mkfs.ext4'', Filesystem_Options fs @ [''-F''])
            else Inl (UnsupportedFormat (Filesystem_Format fs))) of
        Inl err \<Rightarrow> (Some err, tr)
      | Inr (mkfs, args0) \<Rightarrow>
          (let args = args0 @ [Filesystem_Device fs]
           in (case LogCmd w mkfs args ''creating %q filesystem on %q''
                      [S (Filesystem_Format fs), S (Filesystem_Device fs)] tr of
                 (Some err, tr') \<Rightarrow> (Some (MkfsFailed mkfs err args), tr')
               | (None, tr') \<Rightarrow> (None, tr'))))"

definition stage_createFilesystems_fs :: "world \<Rightarrow> Filesystem \<Rightarrow> trace \<Rightarrow> result" where
  "stage_createFilesystems_fs w fs tr =
     (case (if Filesystem_Initialize fs then stage_createFilesystems_mkfs w fs tr else (None, tr)) of
        (Some err, t1) \<Rightarrow> (Some err, t1)
      | (None, t1) \<Rightarrow>
          (case stage_createFiles w fs t1 of
             (Some err, t2) \<Rightarrow> (Some (CreateFilesFailed (Filesystem_Device fs) err), t2)
           | (None, t2) \<Rightarrow> (None, t2)))"

fun stage_createFilesystems_loop :: "world \<Rightarrow> Filesystem list \<Rightarrow> trace \<Rightarrow> result" where
  "stage_createFilesystems_loop w [] tr = (None, tr)"
| "stage_createFilesystems_loop w (fs # fss) tr =
     (case stage_createFilesystems_fs w fs tr of
        (Some err, tr') \<Rightarrow> (Some err, tr')
      | (None, tr') \<Rightarrow> stage_createFilesystems_loop w fss tr')"

definition stage_createFilesystems :: "world \<Rightarrow> Config \<Rightarrow> trace \<Rightarrow> result" where
  "stage_createFilesystems w config tr =
     (if length (Filesystems (Config_Storage config)) = 0 then (None, tr)
      else
        let t0 = emit (PushPrefix ''createFilesystems'') tr;
            devs = map Filesystem_Device (Filesystems (Config_Storage config))
        in case (case stage_waitOnDevices w devs ''filesystems'' t0 of
                   (Some err, t1) \<Rightarrow> (Some err, t1)
                 | (None, t1) \<Rightarrow> stage_createFilesystems_loop w (Filesystems (Config_Storage config)) t1) of
             (r, t2) \<Rightarrow> (r, emit PopPrefix t2))"

definition stage_Run :: "world \<Rightarrow> Config \<Rightarrow> trace \<Rightarrow> bool \<times> trace" where
  "stage_Run w config tr =
     (case stage_createPartitions w config tr of
        (Some err, t1) \<Rightarrow> (False, emit (Crit ''create partitions failed: %v'' [E err]) t1)
      | (None, t1) \<Rightarrow>
     (case stage_createRaids w config t1 of
        (Some err, t2) \<Rightarrow> (False, emit (Crit ''failed to create raids: %v'' [E err]) t2)
      | (None, t2) \<Rightarrow>
     (case stage_createFilesystems w config t2 of
        (Some err, t3) \<Rightarrow> (False, emit (Crit ''failed to create filesystems: %v'' [E err]) t3)
      | (None, t3) \<Rightarrow> (True, t3))))"


section \<open>The pipeline in the words of the specification\<close>

text \<open>
  The specification describes the orchestrator as a state machine: a fixed sequence of
  phases, no backward transitions, no retries; each phase either completes or the pipeline
  halts with a fatal outcome that is logged at critical severity and reported, and later
  phases never run after an earlier one fails. \<open>pipeline\<close> is that machine for any list
  of phases, each with the message of its failure.
\<close>

fun pipeline :: "(string \<times> (trace \<Rightarrow> result)) list \<Rightarrow> trace \<Rightarrow> bool \<times> trace" where
  "pipeline [] tr = (True, tr)"
| "pipeline ((msg, phase) # phases) tr =
     (case phase tr of
        (Some err, tr') \<Rightarrow> (False, emit (Crit msg [E err]) tr')
      | (None, tr') \<Rightarrow> pipeline phases tr')"

section \<open>Observations on traces\<close>

text \<open>The calls of a trace that go to the logger.\<close>

fun is_log :: "event \<Rightarrow> bool" where
  "is_log (PushPrefix _) = True"
| "is_log PopPrefix = True"
| "is_log (Info _ _) = True"
| "is_log (Crit _ _) = True"
| "is_log (OpStart _ _) = True"
| "is_log (OpFinish _ _) = True"
| "is_log (OpFail _ _ _) = True"
| "is_log _ = False"

text \<open>The calls of a trace that reach the host, in order, without their results.\<close>

definition calls :: "trace \<Rightarrow> event list" where
  "calls tr = filter (\<lambda>ev. \<not> is_log ev) (map fst tr)"

fun is_Command :: "event \<Rightarrow> bool" where
  "is_Command (Command _ _) = True"
| "is_Command _ = False"

text \<open>The child processes of a trace.\<close>

definition commands :: "trace \<Rightarrow> event list" where
  "commands tr = filter is_Command (map fst tr)"

text \<open>
  The calls the specification lists for one systemd unit: every drop-in with non-empty
  contents, the unit's own file unless its contents are empty, then the preset line when
  \<open>enable\<close> is set (directory, open for append and create with the fixed mode, the line,
  close), then the link to the null device when \<open>mask\<close> is set.
\<close>

definition unit_calls :: "world \<Rightarrow> storage \<Rightarrow> SystemdUnit \<Rightarrow> event list" where
  "unit_calls w s unit =
     map (\<lambda>dropin. WriteFile (DestDir s) (FileFromUnitDropin w unit dropin))
       (filter (\<lambda>dropin. DropIn_Contents dropin \<noteq> []) (SystemdUnit_DropIns unit))
     @ (if SystemdUnit_Contents unit \<noteq> [] then [WriteFile (DestDir s) (FileFromSystemdUnit w unit)] else [])
     @ (if SystemdUnit_Enable unit
        then [MkdirForFile (JoinPath w (DestDir s) [presetPath]),
              OpenFile (JoinPath w (DestDir s) [presetPath]) [O_RDWR, O_APPEND, O_CREATE] DefaultPresetPermissions,
              WriteString (JoinPath w (DestDir s) [presetPath]) (''enable '' @ SystemdUnit_Name unit @ [CHR 0x0A]),
              Close (JoinPath w (DestDir s) [presetPath])]
        else [])
     @ (if SystemdUnit_Mask unit
        then [MkdirForFile (JoinPath w (DestDir s) [SystemdUnitsPath w, SystemdUnit_Name unit]),
              Symlink ''/dev/null'' (JoinPath w (DestDir s) [SystemdUnitsPath w, SystemdUnit_Name unit])]
        else [])"

text \<open>
  The calls of the scoped-mount protocol for one filesystem mounted at \<open>mnt\<close>: temporary
  directory, mount, the files in configuration order, unmount, removal of the directory.
\<close>

definition scoped_mount_calls :: "string \<Rightarrow> Filesystem \<Rightarrow> event list" where
  "scoped_mount_calls mnt fs =
     [TempDir [] ''ignition-files'',
      Mount (Filesystem_Device fs) mnt (Filesystem_Format fs) 0 []]
     @ map (WriteFile mnt) (Filesystem_Files fs)
     @ [Unmount mnt 0, Remove mnt]"

text \<open>
  The shape of a phase that waits first. \<open>before_wait\<close> is the trace when the device waiter
  is called: the phase has pushed its log prefix and announced the wait, nothing else. A
  result \<open>res\<close> of the phase \<open>waits_first\<close> when the next call is the device waiter on
  \<open>devs\<close>, and, if that call fails, the phase returns the wrapped error having made no
  further call but the logger's; if it succeeds, whatever else the phase does comes after.
\<close>

definition before_wait :: "string \<Rightarrow> string list \<Rightarrow> trace \<Rightarrow> trace" where
  "before_wait name devs tr =
     tr @ [(PushPrefix name, None), (OpStart ''waiting for devices %v'' [L devs], None)]"

definition waits_first :: "world \<Rightarrow> string \<Rightarrow> string \<Rightarrow> string list \<Rightarrow> trace \<Rightarrow> result \<Rightarrow> bool" where
  "waits_first w name ctxt devs tr res =
     (case outcome w (before_wait name devs tr) (WaitOnDevices devs ctxt) of
        Some err \<Rightarrow>
          res = (Some (WaitFailed ctxt err),
                 before_wait name devs tr
                 @ [(WaitOnDevices devs ctxt, Some err),
                    (OpFail ''waiting for devices %v'' [L devs] err, None),
                    (PopPrefix, None)])
      | None \<Rightarrow>
          (\<exists>rest. snd res =
             before_wait name devs tr
             @ [(WaitOnDevices devs ctxt, None),
                (OpFinish ''waiting for devices %v'' [L devs], None)]
             @ rest))"

section \<open>Example hosts and configurations\<close>

text \<open>Path elements joined with a slash.\<close>

fun join_slash :: "string list \<Rightarrow> string" where
  "join_slash [] = []"
| "join_slash [p] = p"
| "join_slash (p # ps) = p @ ''/'' @ join_slash ps"

text \<open>A host on which every call succeeds.\<close>

definition host :: world where
  "host =
     \<lparr>outcome = (\<lambda>tr ev. None),
      tempname = (\<lambda>tr. ''/tmp/ignition-files123''),
      JoinPath = (\<lambda>d elem. join_slash (d # elem)),
      Join = join_slash,
      SystemdUnitsPath = ''etc/systemd/system'',
      NetworkdUnitsPath = ''etc/systemd/network'',
      SystemdDropinsPath = (\<lambda>unit. ''etc/systemd/system/'' @ unit @ ''.d''),
      DefaultFilePermissions = 6 * 64 + 4 * 8 + 4\<rparr>"

text \<open>The same host, except that the call \<open>ev\<close> fails whenever it is made.\<close>

definition failing :: "event \<Rightarrow> world" where
  "failing ev = host\<lparr>outcome := (\<lambda>tr e. if e = ev then Some (External ''injected'') else None)\<rparr>"

definition root :: storage where
  "root = \<lparr>DestDir = ''/sysroot''\<rparr>"

definition sda :: Disk where
  "sda =
     \<lparr>Disk_Device = ''/dev/sda'', Disk_WipeTable = True,
      Disk_Partitions =
        [\<lparr>Partition_Label = ''ROOT'', Partition_Number = 1, Partition_Size = 0,
          Partition_Start = 0, Partition_TypeGUID = ''X''\<rparr>]\<rparr>"

text \<open>A disk with no wipe request and no partitions.\<close>

definition sdb :: Disk where
  "sdb = \<lparr>Disk_Device = ''/dev/sdb'', Disk_WipeTable = False, Disk_Partitions = []\<rparr>"

text \<open>Five members, one of them a spare.\<close>

definition md0 :: Raid where
  "md0 =
     \<lparr>Raid_Name = ''md0'', Raid_Level = ''raid5'',
      Raid_Devices = [''/dev/sdc'', ''/dev/sdd'', ''/dev/sde'', ''/dev/sdf'', ''/dev/sdg''],
      Raid_Spares = 1\<rparr>"

definition hostname :: File where
  "hostname =
     \<lparr>File_Path = ''/etc/hostname'', File_Contents = ''node1'',
      File_Mode = 6 * 64 + 4 * 8 + 4, File_Uid = 0, File_Gid = 0\<rparr>"

definition sda1 :: Filesystem where
  "sda1 =
     \<lparr>Filesystem_Device = ''/dev/sda1'', Filesystem_Format = ''ext4'',
      Filesystem_Initialize = True, Filesystem_Options = [],
      Filesystem_Files = [hostname]\<rparr>"

definition example_service :: SystemdUnit where
  "example_service =
     \<lparr>SystemdUnit_Name = ''example.service'', SystemdUnit_Enable = True,
      SystemdUnit_Mask = True, SystemdUnit_Contents = [],
      SystemdUnit_DropIns =
        [\<lparr>DropIn_Name = ''10-debug.conf'', DropIn_Contents = ''[Service]''\<rparr>,
         \<lparr>DropIn_Name = ''20-empty.conf'', DropIn_Contents = []\<rparr>]\<rparr>"

definition example_network :: NetworkdUnit where
  "example_network =
     \<lparr>NetworkdUnit_Name = ''00-eth0.network'', NetworkdUnit_Contents = ''[Match]''\<rparr>"

definition no_config :: Config where
  "no_config =
     \<lparr>Config_Storage = \<lparr>Disks = [], Arrays = [], Filesystems = []\<rparr>,
      Config_Systemd = \<lparr>Systemd_Units = []\<rparr>,
      Config_Networkd = \<lparr>Networkd_Units = []\<rparr>\<rparr>"

definition example_config :: Config where
  "example_config =
     \<lparr>Config_Storage = \<lparr>Disks = [sda], Arrays = [md0], Filesystems = [sda1]\<rparr>,
      Config_Systemd = \<lparr>Systemd_Units = [example_service]\<rparr>,
      Config_Networkd = \<lparr>Networkd_Units = [example_network]\<rparr>\<rparr>"

text \<open>A filesystem to be initialized with a format that has no formatter.\<close>

definition zfs :: Filesystem where
  "zfs =
     \<lparr>Filesystem_Device = ''/dev/sda2'', Filesystem_Format = ''zfs'',
      Filesystem_Initialize = True, Filesystem_Options = [],
      Filesystem_Files = [hostname]\<rparr>"

definition zfs_config :: Config where
  "zfs_config = no_config\<lparr>Config_Storage := \<lparr>Disks = [], Arrays = [], Filesystems = [zfs]\<rparr>\<rparr>"

definition sdb_config :: Config where
  "sdb_config = no_config\<lparr>Config_Storage := \<lparr>Disks = [sdb], Arrays = [], Filesystems = []\<rparr>\<rparr>"

text \<open>A filesystem that exists already: it is not to be initialized, only populated.\<close>

definition sda3 :: Filesystem where
  "sda3 =
     \<lparr>Filesystem_Device = ''/dev/sda3'', Filesystem_Format = ''ext4'',
      Filesystem_Initialize = False, Filesystem_Options = [],
      Filesystem_Files = [hostname]\<rparr>"


section \<open>Basic facts about calls and logged operations\<close>

lemma LogOp_call:
  "LogOp (call w ev) format a tr =
     (outcome w (tr @ [(OpStart format a, None)]) ev,
      tr @ [(OpStart format a, None),
            (ev, outcome w (tr @ [(OpStart format a, None)]) ev),
            (case outcome w (tr @ [(OpStart format a, None)]) ev of
               None \<Rightarrow> OpFinish format a
             | Some err \<Rightarrow> OpFail format a err, None)])"
  by (simp add: LogOp_def call_def emit_def split: option.splits)

section \<open>The two pipelines\<close>

lemma stage_waitOnDevices_eq: "stage_waitOnDevices = waitOnDevices"
  unfolding stage_waitOnDevices_def waitOnDevices_def ..

lemma stage_createPartitions_parts_eq: "stage_createPartitions_parts = createPartitions_parts"
proof (intro ext)
  fix dev parts tr
  show "stage_createPartitions_parts dev parts tr = createPartitions_parts dev parts tr"
    by (induction parts arbitrary: tr) simp_all
qed

lemma stage_createPartitions_op_eq: "stage_createPartitions_op = createPartitions_op"
  unfolding stage_createPartitions_op_def createPartitions_op_def stage_createPartitions_parts_eq ..

lemma stage_createPartitions_disks_eq: "stage_createPartitions_disks = createPartitions_disks"
proof (intro ext)
  fix w devs tr
  show "stage_createPartitions_disks w devs tr = createPartitions_disks w devs tr"
    by (induction devs arbitrary: tr)
      (simp_all add: stage_createPartitions_op_eq cong: prod.case_cong option.case_cong)
qed

lemma stage_createPartitions_eq: "stage_createPartitions = createPartitions"
  unfolding stage_createPartitions_def createPartitions_def stage_waitOnDevices_eq
    stage_createPartitions_disks_eq ..

lemma stage_createRaids_devs_eq: "stage_createRaids_devs = createRaids_devs"
proof (intro ext)
  fix args devs
  show "stage_createRaids_devs args devs = createRaids_devs args devs"
    by (induction devs arbitrary: args) simp_all
qed

lemma stage_createRaids_args_eq: "stage_createRaids_args = createRaids_args"
  unfolding stage_createRaids_args_def createRaids_args_def stage_createRaids_devs_eq ..

lemma stage_createRaids_arrays_eq: "stage_createRaids_arrays = createRaids_arrays"
proof (intro ext)
  fix w mds tr
  show "stage_createRaids_arrays w mds tr = createRaids_arrays w mds tr"
    by (induction mds arbitrary: tr)
      (simp_all add: stage_createRaids_args_eq cong: prod.case_cong option.case_cong)
qed

lemma stage_createRaids_eq: "stage_createRaids = createRaids"
  unfolding stage_createRaids_def createRaids_def stage_waitOnDevices_eq stage_createRaids_arrays_eq ..

lemma stage_createFiles_files_eq: "stage_createFiles_files = createFiles_files"
proof (intro ext)
  fix w mnt fs tr
  show "stage_createFiles_files w mnt fs tr = createFiles_files w mnt fs tr"
    by (induction fs arbitrary: tr) (simp_all cong: prod.case_cong option.case_cong)
qed

lemma stage_createFiles_eq: "stage_createFiles = createFiles"
  unfolding stage_createFiles_def createFiles_def stage_createFiles_files_eq ..

lemma stage_createFilesystems_mkfs_eq: "stage_createFilesystems_mkfs = createFilesystems_mkfs"
  unfolding stage_createFilesystems_mkfs_def createFilesystems_mkfs_def ..

lemma stage_createFilesystems_fs_eq: "stage_createFilesystems_fs = createFilesystems_fs"
  unfolding stage_createFilesystems_fs_def createFilesystems_fs_def stage_createFilesystems_mkfs_eq
    stage_createFiles_eq ..

lemma stage_createFilesystems_loop_eq: "stage_createFilesystems_loop = createFilesystems_loop"
proof (intro ext)
  fix w fss tr
  show "stage_createFilesystems_loop w fss tr = createFilesystems_loop w fss tr"
    by (induction fss arbitrary: tr)
      (simp_all add: stage_createFilesystems_fs_eq cong: prod.case_cong option.case_cong)
qed

lemma stage_createFilesystems_eq: "stage_createFilesystems = createFilesystems"
  unfolding stage_createFilesystems_def createFilesystems_def stage_waitOnDevices_eq
    stage_createFilesystems_loop_eq ..

lemma Run_after_stage_Run:
  "Run w s config tr =
     (case stage_Run w config tr of
        (True, t3) \<Rightarrow>
          (case createUnits w s config t3 of
             (Some err, t4) \<Rightarrow> (False, emit (Crit ''failed to create units: %v'' [E err]) t4)
           | (None, t4) \<Rightarrow> (True, t4))
      | (False, t) \<Rightarrow> (False, t))"
  by (simp add: Run_def stage_Run_def stage_createPartitions_eq stage_createRaids_eq
      stage_createFilesystems_eq split: prod.splits option.splits)

lemma stage_phases_ignore_units:
  "stage_createPartitions w (config\<lparr>Config_Systemd := sd, Config_Networkd := nd\<rparr>) = stage_createPartitions w config"
  "stage_createRaids w (config\<lparr>Config_Systemd := sd, Config_Networkd := nd\<rparr>) = stage_createRaids w config"
  "stage_createFilesystems w (config\<lparr>Config_Systemd := sd, Config_Networkd := nd\<rparr>) = stage_createFilesystems w config"
  by (simp_all add: fun_eq_iff stage_createPartitions_def stage_createRaids_def stage_createFilesystems_def
      cong: prod.case_cong option.case_cong)

lemma stage_Run_ignores_units:
  "stage_Run w (config\<lparr>Config_Systemd := sd, Config_Networkd := nd\<rparr>) tr = stage_Run w config tr"
  unfolding stage_Run_def stage_phases_ignore_units ..

lemma example_unit_calls:
  "calls (snd (Run host root example_config [])) =
     calls (snd (stage_Run host example_config []))
     @ unit_calls host root example_service
     @ [WriteFile ''/sysroot'' (FileFromNetworkdUnit host example_network)]"
  by code_simp

text \<open>
  C10. The stage of \<open>src/exec/stages/storage/storage.go\<close> and the struct \<open>storage\<close> of
  \<open>src/exec/storage.go\<close> have the same partition, RAID and filesystem phases. \<open>Run\<close> of
  \<open>storage\<close> is \<open>Run\<close> of the stage followed, when that succeeded, by the unit phase. The
  stage's \<open>Run\<close> does not depend on the units of the configuration: it performs no unit
  phase. On the example configuration \<open>storage\<close> makes, after the calls of the stage, the
  calls that write the drop-in, the preset line, the mask link and the networkd unit.
\<close>

theorem stage_Run_is_Run_without_units:
  "stage_createPartitions = createPartitions
   \<and> stage_createRaids = createRaids
   \<and> stage_createFilesystems = createFilesystems
   \<and> Run w s config tr =
       (case stage_Run w config tr of
          (True, t3) \<Rightarrow>
            (case createUnits w s config t3 of
               (Some err, t4) \<Rightarrow> (False, emit (Crit ''failed to create units: %v'' [E err]) t4)
             | (None, t4) \<Rightarrow> (True, t4))
        | (False, t) \<Rightarrow> (False, t))
   \<and> stage_Run w (config\<lparr>Config_Systemd := sd, Config_Networkd := nd\<rparr>) tr = stage_Run w config tr
   \<and> calls (snd (Run host root example_config [])) =
       calls (snd (stage_Run host example_config []))
       @ unit_calls host root example_service
       @ [WriteFile ''/sysroot'' (FileFromNetworkdUnit host example_network)]"
proof (intro conjI)
  show "stage_createPartitions = createPartitions"
    by (rule stage_createPartitions_eq)
  show "stage_createRaids = createRaids"
    by (rule stage_createRaids_eq)
  show "stage_createFilesystems = createFilesystems"
    by (rule stage_createFilesystems_eq)
  show "Run w s config tr =
       (case stage_Run w config tr of
          (True, t3) \<Rightarrow>
            (case createUnits w s config t3 of
               (Some err, t4) \<Rightarrow> (False, emit (Crit ''failed to create units: %v'' [E err]) t4)
             | (None, t4) \<Rightarrow> (True, t4))
        | (False, t) \<Rightarrow> (False, t))"
    by (rule Run_after_stage_Run)
  show "stage_Run w (config\<lparr>Config_Systemd := sd, Config_Networkd := nd\<rparr>) tr = stage_Run w config tr"
    by (rule stage_Run_ignores_units)
  show "calls (snd (Run host root example_config [])) =
       calls (snd (stage_Run host example_config []))
       @ unit_calls host root example_service
       @ [WriteFile ''/sysroot'' (FileFromNetworkdUnit host example_network)]"
    by (rule example_unit_calls)
qed

section \<open>The order of the phases\<close>

lemma Run_pipeline:
  "Run w s config tr =
     pipeline [(''create partitions failed: %v'', createPartitions w config),
               (''failed to create raids: %v'', createRaids w config),
               (''failed to create filesystems: %v'', createFilesystems w config),
               (''failed to create units: %v'', createUnits w s config)] tr"
  by (simp add: Run_def split: prod.splits option.splits)

lemma Run_success_iff:
  "fst (Run w s config tr) \<longleftrightarrow>
     (\<exists>t1 t2 t3 t4.
        createPartitions w config tr = (None, t1) \<and> createRaids w config t1 = (None, t2)
        \<and> createFilesystems w config t2 = (None, t3) \<and> createUnits w s config t3 = (None, t4)
        \<and> snd (Run w s config tr) = t4)"
  by (auto simp add: Run_def split: prod.splits option.splits)

text \<open>
  C1. \<open>Run\<close> is the pipeline of the four phases partitions, RAID arrays, filesystems,
  units, in this order. It reports success exactly when the four phases return no error,
  each started on the trace the one before left. When a phase returns an error, \<open>Run\<close>
  reports failure, and its trace is the trace of that phase followed by the critical log
  line: no later phase has made a call.
\<close>

theorem Run_phases_in_order:
  "Run w s config tr =
     pipeline [(''create partitions failed: %v'', createPartitions w config),
               (''failed to create raids: %v'', createRaids w config),
               (''failed to create filesystems: %v'', createFilesystems w config),
               (''failed to create units: %v'', createUnits w s config)] tr
   \<and> (fst (Run w s config tr) \<longleftrightarrow>
        (\<exists>t1 t2 t3 t4.
           createPartitions w config tr = (None, t1) \<and> createRaids w config t1 = (None, t2)
           \<and> createFilesystems w config t2 = (None, t3) \<and> createUnits w s config t3 = (None, t4)
           \<and> snd (Run w s config tr) = t4))
   \<and> (\<forall>err t1. createPartitions w config tr = (Some err, t1) \<longrightarrow>
        Run w s config tr = (False, emit (Crit ''create partitions failed: %v'' [E err]) t1))
   \<and> (\<forall>err t1 t2. createPartitions w config tr = (None, t1) \<longrightarrow>
        createRaids w config t1 = (Some err, t2) \<longrightarrow>
        Run w s config tr = (False, emit (Crit ''failed to create raids: %v'' [E err]) t2))
   \<and> (\<forall>err t1 t2 t3. createPartitions w config tr = (None, t1) \<longrightarrow>
        createRaids w config t1 = (None, t2) \<longrightarrow>
        createFilesystems w config t2 = (Some err, t3) \<longrightarrow>
        Run w s config tr = (False, emit (Crit ''failed to create filesystems: %v'' [E err]) t3))
   \<and> (\<forall>err t1 t2 t3 t4. createPartitions w config tr = (None, t1) \<longrightarrow>
        createRaids w config t1 = (None, t2) \<longrightarrow>
        createFilesystems w config t2 = (None, t3) \<longrightarrow>
        createUnits w s config t3 = (Some err, t4) \<longrightarrow>
        Run w s config tr = (False, emit (Crit ''failed to create units: %v'' [E err]) t4))"
  using Run_pipeline [of w s config tr] Run_success_iff [of w s config tr]
  by (simp add: Run_def)

theorem Run_phases_in_order_witness:
  "fst (Run host root example_config [])
   \<and> (\<exists>t1 t2 t3 t4.
         createPartitions host example_config [] = (None, t1)
         \<and> createRaids host example_config t1 = (None, t2)
         \<and> createFilesystems host example_config t2 = (None, t3)
         \<and> createUnits host root example_config t3 = (None, t4)
         \<and> snd (Run host root example_config []) = t4)
   \<and> fst (createPartitions (failing (SgdiskCommit ''/dev/sda'')) example_config []) \<noteq> None
   \<and> Run (failing (SgdiskCommit ''/dev/sda'')) root example_config [] =
       (False, emit (Crit ''create partitions failed: %v'' [E (CommitFailure (External ''injected''))])
                 (snd (createPartitions (failing (SgdiskCommit ''/dev/sda'')) example_config [])))
   \<and> fst (createRaids (failing (WaitOnDevices (Raid_Devices md0) ''raids'')) example_config
            (snd (createPartitions (failing (WaitOnDevices (Raid_Devices md0) ''raids'')) example_config [])))
       \<noteq> None
   \<and> Run (failing (WaitOnDevices (Raid_Devices md0) ''raids'')) root example_config [] =
       (False, emit (Crit ''failed to create raids: %v'' [E (WaitFailed ''raids'' (External ''injected''))])
                 (snd (createRaids (failing (WaitOnDevices (Raid_Devices md0) ''raids'')) example_config
                         (snd (createPartitions (failing (WaitOnDevices (Raid_Devices md0) ''raids''))
                                 example_config [])))))
   \<and> fst (Run (failing (Command ''/sbin/mkfs.ext4'' [''-F'', ''/dev/sda1''])) root example_config []) = False
   \<and> fst (Run (failing (Symlink ''/dev/null'' ''/sysroot/etc/systemd/system/example.service'')) root
             example_config []) = False"
proof -
  let ?wp = "failing (SgdiskCommit ''/dev/sda'')"
  let ?wr = "failing (WaitOnDevices (Raid_Devices md0) ''raids'')"
  let ?wf = "failing (Command ''/sbin/mkfs.ext4'' [''-F'', ''/dev/sda1''])"
  let ?wu = "failing (Symlink ''/dev/null'' ''/sysroot/etc/systemd/system/example.service'')"
  have ok: "fst (Run host root example_config [])"
    by code_simp
  then have all: "\<exists>t1 t2 t3 t4.
         createPartitions host example_config [] = (None, t1)
         \<and> createRaids host example_config t1 = (None, t2)
         \<and> createFilesystems host example_config t2 = (None, t3)
         \<and> createUnits host root example_config t3 = (None, t4)
         \<and> snd (Run host root example_config []) = t4"
    using Run_phases_in_order [of host root example_config "[]"] by blast
  have p: "fst (createPartitions ?wp example_config []) = Some (CommitFailure (External ''injected''))"
    by code_simp
  then have p': "createPartitions ?wp example_config [] =
      (Some (CommitFailure (External ''injected'')), snd (createPartitions ?wp example_config []))"
    by (metis prod.collapse)
  have rp: "Run ?wp root example_config [] =
       (False, emit (Crit ''create partitions failed: %v'' [E (CommitFailure (External ''injected''))])
                 (snd (createPartitions ?wp example_config [])))"
    using Run_phases_in_order [of ?wp root example_config "[]"] p' by blast
  have r1: "fst (createPartitions ?wr example_config []) = None"
    by code_simp
  then have r1': "createPartitions ?wr example_config [] = (None, snd (createPartitions ?wr example_config []))"
    by (metis prod.collapse)
  have r2: "fst (createRaids ?wr example_config (snd (createPartitions ?wr example_config [])))
      = Some (WaitFailed ''raids'' (External ''injected''))"
    by code_simp
  then have r2': "createRaids ?wr example_config (snd (createPartitions ?wr example_config [])) =
      (Some (WaitFailed ''raids'' (External ''injected'')),
       snd (createRaids ?wr example_config (snd (createPartitions ?wr example_config []))))"
    by (metis prod.collapse)
  have rr: "Run ?wr root example_config [] =
       (False, emit (Crit ''failed to create raids: %v'' [E (WaitFailed ''raids'' (External ''injected''))])
                 (snd (createRaids ?wr example_config (snd (createPartitions ?wr example_config [])))))"
    using Run_phases_in_order [of ?wr root example_config "[]"] r1' r2' by blast
  have f1: "fst (createPartitions ?wf example_config []) = None"
    by code_simp
  have f2: "fst (createRaids ?wf example_config (snd (createPartitions ?wf example_config []))) = None"
    by code_simp
  have f3: "fst (createFilesystems ?wf example_config
                   (snd (createRaids ?wf example_config (snd (createPartitions ?wf example_config [])))))
            = Some (MkfsFailed ''/sbin/mkfs.ext4'' (External ''injected'') [''-F'', ''/dev/sda1''])"
    by code_simp
  have rf: "fst (Run ?wf root example_config []) = False"
    using Run_phases_in_order [of ?wf root example_config "[]"] f1 f2 f3
    by (metis fst_conv prod.collapse)
  have u1: "fst (createPartitions ?wu example_config []) = None"
    by code_simp
  have u2: "fst (createRaids ?wu example_config (snd (createPartitions ?wu example_config []))) = None"
    by code_simp
  have u3: "fst (createFilesystems ?wu example_config
                   (snd (createRaids ?wu example_config (snd (createPartitions ?wu example_config [])))))
            = None"
    by code_simp
  have u4: "fst (createUnits ?wu root example_config
                   (snd (createFilesystems ?wu example_config
                      (snd (createRaids ?wu example_config (snd (createPartitions ?wu example_config [])))))))
            = Some (External ''injected'')"
    by code_simp
  have ru: "fst (Run ?wu root example_config []) = False"
    using Run_phases_in_order [of ?wu root example_config "[]"] u1 u2 u3 u4
    by (metis fst_conv prod.collapse)
  show ?thesis
    using ok all p rp r2 rr rf ru by simp
qed

section \<open>The loops, entry by entry\<close>

lemma createPartitions_disks_append:
  "createPartitions_disks w (ds1 @ ds2) tr =
     (case createPartitions_disks w ds1 tr of
        (Some err, t) \<Rightarrow> (Some err, t)
      | (None, t) \<Rightarrow> createPartitions_disks w ds2 t)"
  by (induction ds1 arbitrary: tr) (simp_all split: prod.splits option.splits)

lemma createRaids_arrays_append:
  "createRaids_arrays w (mds1 @ mds2) tr =
     (case createRaids_arrays w mds1 tr of
        (Some err, t) \<Rightarrow> (Some err, t)
      | (None, t) \<Rightarrow> createRaids_arrays w mds2 t)"
  by (induction mds1 arbitrary: tr) (simp_all split: prod.splits option.splits)

lemma createFilesystems_loop_append:
  "createFilesystems_loop w (fss1 @ fss2) tr =
     (case createFilesystems_loop w fss1 tr of
        (Some err, t) \<Rightarrow> (Some err, t)
      | (None, t) \<Rightarrow> createFilesystems_loop w fss2 t)"
  by (induction fss1 arbitrary: tr) (simp_all split: prod.splits option.splits)

lemma createUnits_systemd_append:
  "createUnits_systemd w s (us1 @ us2) tr =
     (case createUnits_systemd w s us1 tr of
        (Some err, t) \<Rightarrow> (Some err, t)
      | (None, t) \<Rightarrow> createUnits_systemd w s us2 t)"
  by (induction us1 arbitrary: tr) (simp_all split: prod.splits option.splits)

lemma commands_append: "commands (xs @ ys) = commands xs @ commands ys"
  by (simp add: commands_def)

lemma calls_append: "calls (xs @ ys) = calls xs @ calls ys"
  by (simp add: calls_def)

section \<open>The arguments of the RAID assembly\<close>

lemma createRaids_devs_append: "createRaids_devs args devs = args @ devs"
  by (induction devs arbitrary: args) simp_all

lemma sint_word_of_nat_small:
  assumes "n < 2 ^ 63"
  shows "sint (word_of_nat n :: 64 word) = int n"
proof -
  have "sint (word_of_nat n :: 64 word) = sint (word_of_int (int n) :: 64 word)"
    by simp
  also have "\<dots> = signed_take_bit 63 (int n)"
    by (simp only: sint_sbintrunc') simp
  also have "\<dots> = int n"
    using assms by (intro signed_take_bit_int_eq_self) simp_all
  finally show ?thesis .
qed

lemma sint_members_minus_spares:
  fixes spares :: "64 word"
  assumes "n < 2 ^ 63" and "- (2 ^ 63) \<le> int n - sint spares" and "int n - sint spares < 2 ^ 63"
  shows "sint (word_of_nat n - spares) = int n - sint spares"
proof -
  have "sint (word_of_nat n - spares) = signed_take_bit 63 (sint (word_of_nat n :: 64 word) - sint spares)"
    by (simp add: sint_word_diff)
  also have "\<dots> = signed_take_bit 63 (int n - sint spares)"
    using assms(1) by (simp only: sint_word_of_nat_small)
  also have "\<dots> = int n - sint spares"
    using assms(2,3) by (intro signed_take_bit_int_eq_self) simp_all
  finally show ?thesis .
qed

lemma createRaids_args_eq:
  "createRaids_args md =
     [''--create'', Raid_Name md, ''--force'', ''--run'', ''--level'', Raid_Level md,
      ''--raid-devices'', Sprintf_d (word_of_nat (length (Raid_Devices md)) - Raid_Spares md)]
     @ (if 0 < sint (Raid_Spares md) then [''--spare-devices'', Sprintf_d (Raid_Spares md)] else [])
     @ Raid_Devices md"
  by (simp add: createRaids_args_def createRaids_devs_append)

lemma createRaids_arrays_extends: "\<exists>rest. snd (createRaids_arrays w mds tr) = tr @ rest"
proof (induction mds arbitrary: tr)
  case Nil
  show ?case by simp
next
  case (Cons md mds)
  let ?t0 = "tr @ [(OpStart ''creating %q'' [S (Raid_Name md)], None)]"
  let ?cmd = "Command ''/sbin/mdadm'' (createRaids_args md)"
  show ?case
  proof (cases "outcome w ?t0 ?cmd")
    case None
    obtain rest where "snd (createRaids_arrays w mds
        (tr @ [(OpStart ''creating %q'' [S (Raid_Name md)], None), (?cmd, None),
               (OpFinish ''creating %q'' [S (Raid_Name md)], None)])) =
        (tr @ [(OpStart ''creating %q'' [S (Raid_Name md)], None), (?cmd, None),
               (OpFinish ''creating %q'' [S (Raid_Name md)], None)]) @ rest"
      using Cons.IH by blast
    with None show ?thesis
      by (simp add: LogCmd_def LogOp_call)
  next
    case (Some err)
    then show ?thesis
      by (simp add: LogCmd_def LogOp_call)
  qed
qed

lemma createRaids_arrays_head:
  "\<exists>r rest. snd (createRaids_arrays w (md # mds) tr) =
      tr @ [(OpStart ''creating %q'' [S (Raid_Name md)], None),
            (Command ''/sbin/mdadm'' (createRaids_args md), r)] @ rest"
proof (cases "outcome w (tr @ [(OpStart ''creating %q'' [S (Raid_Name md)], None)])
               (Command ''/sbin/mdadm'' (createRaids_args md))")
  case None
  obtain rest where "snd (createRaids_arrays w mds
        (tr @ [(OpStart ''creating %q'' [S (Raid_Name md)], None),
               (Command ''/sbin/mdadm'' (createRaids_args md), None),
               (OpFinish ''creating %q'' [S (Raid_Name md)], None)])) =
        (tr @ [(OpStart ''creating %q'' [S (Raid_Name md)], None),
               (Command ''/sbin/mdadm'' (createRaids_args md), None),
               (OpFinish ''creating %q'' [S (Raid_Name md)], None)]) @ rest"
    using createRaids_arrays_extends by blast
  with None show ?thesis
    by (simp add: LogCmd_def LogOp_call)
next
  case (Some err)
  then show ?thesis
    by (simp add: LogCmd_def LogOp_call)
qed

text \<open>
  C6. The argument list built for an array is: create with the name, force, run, the
  level, the raid-devices count printed from the number of members minus the spares, the
  spare-devices count exactly when the spares are positive, then the members in
  configuration order. Every array the loop reaches is assembled by \<open>/sbin/mdadm\<close> with
  this list. Where the subtraction does not overflow Go's \<open>int\<close>, the count printed is the
  decimal numeral of the mathematical difference.
\<close>

theorem createRaids_mdadm_arguments:
  "createRaids_args md =
     [''--create'', Raid_Name md, ''--force'', ''--run'', ''--level'', Raid_Level md,
      ''--raid-devices'', Sprintf_d (word_of_nat (length (Raid_Devices md)) - Raid_Spares md)]
     @ (if 0 < sint (Raid_Spares md) then [''--spare-devices'', Sprintf_d (Raid_Spares md)] else [])
     @ Raid_Devices md
   \<and> (\<forall>t1. createRaids_arrays w mds1 tr = (None, t1) \<longrightarrow>
        (\<exists>r rest. snd (createRaids_arrays w (mds1 @ md # mds2) tr) =
           t1 @ [(OpStart ''creating %q'' [S (Raid_Name md)], None),
                 (Command ''/sbin/mdadm'' (createRaids_args md), r)] @ rest))
   \<and> (length (Raid_Devices md) < 2 ^ 63
        \<and> - (2 ^ 63) \<le> int (length (Raid_Devices md)) - sint (Raid_Spares md)
        \<and> int (length (Raid_Devices md)) - sint (Raid_Spares md) < 2 ^ 63 \<longrightarrow>
        Sprintf_d (word_of_nat (length (Raid_Devices md)) - Raid_Spares md) =
          itoa (int (length (Raid_Devices md)) - sint (Raid_Spares md)))"
proof (intro conjI allI impI)
  show "createRaids_args md =
     [''--create'', Raid_Name md, ''--force'', ''--run'', ''--level'', Raid_Level md,
      ''--raid-devices'', Sprintf_d (word_of_nat (length (Raid_Devices md)) - Raid_Spares md)]
     @ (if 0 < sint (Raid_Spares md) then [''--spare-devices'', Sprintf_d (Raid_Spares md)] else [])
     @ Raid_Devices md"
    by (rule createRaids_args_eq)
next
  fix t1
  assume "createRaids_arrays w mds1 tr = (None, t1)"
  then have "createRaids_arrays w (mds1 @ md # mds2) tr = createRaids_arrays w (md # mds2) t1"
    by (simp add: createRaids_arrays_append)
  then show "\<exists>r rest. snd (createRaids_arrays w (mds1 @ md # mds2) tr) =
           t1 @ [(OpStart ''creating %q'' [S (Raid_Name md)], None),
                 (Command ''/sbin/mdadm'' (createRaids_args md), r)] @ rest"
    using createRaids_arrays_head [of w md mds2 t1] by simp
next
  assume "length (Raid_Devices md) < 2 ^ 63
        \<and> - (2 ^ 63) \<le> int (length (Raid_Devices md)) - sint (Raid_Spares md)
        \<and> int (length (Raid_Devices md)) - sint (Raid_Spares md) < 2 ^ 63"
  then show "Sprintf_d (word_of_nat (length (Raid_Devices md)) - Raid_Spares md) =
          itoa (int (length (Raid_Devices md)) - sint (Raid_Spares md))"
    by (simp add: Sprintf_d_def sint_members_minus_spares)
qed

theorem createRaids_mdadm_arguments_witness:
  "createRaids_args md0 =
     [''--create'', ''md0'', ''--force'', ''--run'', ''--level'', ''raid5'',
      ''--raid-devices'', ''4'', ''--spare-devices'', ''1'',
      ''/dev/sdc'', ''/dev/sdd'', ''/dev/sde'', ''/dev/sdf'', ''/dev/sdg'']
   \<and> createRaids_arrays host [] [] = (None, [])
   \<and> (\<exists>r rest. snd (createRaids_arrays host ([] @ md0 # []) []) =
         [] @ [(OpStart ''creating %q'' [S ''md0''], None),
               (Command ''/sbin/mdadm''
                  [''--create'', ''md0'', ''--force'', ''--run'', ''--level'', ''raid5'',
                   ''--raid-devices'', ''4'', ''--spare-devices'', ''1'',
                   ''/dev/sdc'', ''/dev/sdd'', ''/dev/sde'', ''/dev/sdf'', ''/dev/sdg''], r)] @ rest)
   \<and> length (Raid_Devices md0) = 5 \<and> sint (Raid_Spares md0) = 1
   \<and> Sprintf_d (word_of_nat (length (Raid_Devices md0)) - Raid_Spares md0) = itoa (5 - 1)"
proof -
  note inst = createRaids_mdadm_arguments [of md0 host "[]" "[]" "[]"]
  have name: "Raid_Name md0 = ''md0''"
    by (simp add: md0_def)
  have len: "length (Raid_Devices md0) = 5" and sp: "sint (Raid_Spares md0) = 1"
    by (simp_all add: md0_def)
  have args: "createRaids_args md0 =
     [''--create'', ''md0'', ''--force'', ''--run'', ''--level'', ''raid5'',
      ''--raid-devices'', ''4'', ''--spare-devices'', ''1'',
      ''/dev/sdc'', ''/dev/sdd'', ''/dev/sde'', ''/dev/sdf'', ''/dev/sdg'']"
    by code_simp
  have nil: "createRaids_arrays host [] [] = (None, [])"
    by simp
  have cmd: "\<exists>r rest. snd (createRaids_arrays host ([] @ md0 # []) []) =
         [] @ [(OpStart ''creating %q'' [S (Raid_Name md0)], None),
               (Command ''/sbin/mdadm'' (createRaids_args md0), r)] @ rest"
    using inst nil by blast
  have count: "Sprintf_d (word_of_nat (length (Raid_Devices md0)) - Raid_Spares md0) = itoa (5 - 1)"
    using inst len sp by simp
  show ?thesis
    using args nil cmd len sp count unfolding name args by (intro conjI)
qed

section \<open>The filesystem phase, entry by entry\<close>

lemma createFiles_files_extends:
  "\<exists>rest. snd (createFiles_files w mnt fs tr) = tr @ rest \<and> commands rest = []"
proof (induction fs arbitrary: tr)
  case Nil
  show ?case by (simp add: commands_def)
next
  case (Cons f fs)
  let ?t0 = "tr @ [(OpStart ''writing file %q'' [S (File_Path f)], None)]"
  show ?case
  proof (cases "outcome w ?t0 (WriteFile mnt f)")
    case None
    let ?t1 = "tr @ [(OpStart ''writing file %q'' [S (File_Path f)], None), (WriteFile mnt f, None),
                     (OpFinish ''writing file %q'' [S (File_Path f)], None)]"
    obtain rest where "snd (createFiles_files w mnt fs ?t1) = ?t1 @ rest" and "commands rest = []"
      using Cons.IH by blast
    with None show ?thesis
      by (simp add: LogOp_call commands_def)
  next
    case (Some err)
    then show ?thesis
      by (simp add: LogOp_call commands_def)
  qed
qed

lemma createFiles_extends:
  "\<exists>rest. snd (createFiles w fs tr) = tr @ rest \<and> commands rest = []"
proof (cases "Filesystem_Files fs = []")
  case True
  then show ?thesis by (simp add: createFiles_def commands_def)
next
  case files: False
  let ?t0 = "tr @ [(PushPrefix ''createFiles'', None)]"
  let ?mnt = "tempname w ?t0"
  let ?dev = "Filesystem_Device fs"
  show ?thesis
  proof (cases "outcome w ?t0 (TempDir [] ''ignition-files'')")
    case (Some err)
    with files show ?thesis
      by (simp add: createFiles_def call_def emit_def commands_def)
  next
    case temp: None
    let ?t1 = "?t0 @ [(TempDir [] ''ignition-files'', None),
                      (OpStart ''mounting %q at %q'' [S ?dev, S ?mnt], None)]"
    let ?mount = "Mount ?dev ?mnt (Filesystem_Format fs) 0 []"
    show ?thesis
    proof (cases "outcome w ?t1 ?mount")
      case (Some err)
      with files temp show ?thesis
        by (simp add: createFiles_def call_def emit_def LogOp_def commands_def Let_def)
    next
      case mount: None
      let ?t2 = "?t1 @ [(?mount, None), (OpFinish ''mounting %q at %q'' [S ?dev, S ?mnt], None)]"
      obtain rest where rest: "snd (createFiles_files w ?mnt (Filesystem_Files fs) ?t2) = ?t2 @ rest"
        and none: "commands rest = []"
        using createFiles_files_extends by blast
      obtain r t3 where loop: "createFiles_files w ?mnt (Filesystem_Files fs) ?t2 = (r, t3)"
        by (cases "createFiles_files w ?mnt (Filesystem_Files fs) ?t2")
      with rest have t3: "t3 = ?t2 @ rest"
        by simp
      from files temp mount loop show ?thesis
        unfolding t3 using none
        by (simp add: createFiles_def call_def emit_def LogOp_def commands_def Let_def
            split: option.splits)
    qed
  qed
qed

lemma createFilesystems_fs_unsupported:
  assumes "Filesystem_Initialize fs" and "Filesystem_Format fs \<noteq> ''btrfs''"
    and "Filesystem_Format fs \<noteq> ''ext4''"
  shows "createFilesystems_fs w fs tr = (Some (UnsupportedFormat (Filesystem_Format fs)), tr)"
  using assms by (simp add: createFilesystems_fs_def createFilesystems_mkfs_def)

lemma createFilesystems_fs_formatter:
  assumes "Filesystem_Initialize fs"
    and "Filesystem_Format fs = ''btrfs'' \<or> Filesystem_Format fs = ''ext4''"
  shows "\<exists>r rest. snd (createFilesystems_fs w fs tr) =
      tr @ [(OpStart ''creating %q filesystem on %q''
               [S (Filesystem_Format fs), S (Filesystem_Device fs)], None),
            (Command (if Filesystem_Format fs = ''btrfs'' then ''/sbin/mkfs.btrfs'' else ''/sbin/mkfs.ext4'')
               (Filesystem_Options fs
                @ [if Filesystem_Format fs = ''btrfs'' then ''--force'' else ''-F'']
                @ [Filesystem_Device fs]), r)] @ rest
      \<and> commands rest = []"
proof -
  let ?start = "(OpStart ''creating %q filesystem on %q''
               [S (Filesystem_Format fs), S (Filesystem_Device fs)], None)"
  let ?cmd = "Command (if Filesystem_Format fs = ''btrfs'' then ''/sbin/mkfs.btrfs'' else ''/sbin/mkfs.ext4'')
               (Filesystem_Options fs
                @ [if Filesystem_Format fs = ''btrfs'' then ''--force'' else ''-F'']
                @ [Filesystem_Device fs])"
  show ?thesis
  proof (cases "outcome w (tr @ [?start]) ?cmd")
    case (Some err)
    with assms show ?thesis
      by (auto simp add: createFilesystems_fs_def createFilesystems_mkfs_def LogCmd_def LogOp_call
          commands_def Let_def)
  next
    case None
    let ?t1 = "tr @ [?start, (?cmd, None),
                     (OpFinish ''creating %q filesystem on %q''
                        [S (Filesystem_Format fs), S (Filesystem_Device fs)], None)]"
    obtain rest where rest: "snd (createFiles w fs ?t1) = ?t1 @ rest" and none: "commands rest = []"
      using createFiles_extends by blast
    have "snd (createFilesystems_fs w fs tr) = snd (createFiles w fs ?t1)"
      using assms None
      by (auto simp add: createFilesystems_fs_def createFilesystems_mkfs_def LogCmd_def LogOp_call
          Let_def split: prod.splits option.splits)
    with rest none show ?thesis
      by (simp add: commands_def)
  qed
qed

text \<open>
  C8. For a filesystem entry with \<open>initialize\<close> set and format btrfs or ext4, the first call
  of its round of the loop is the formatter, \<open>/sbin/mkfs.btrfs\<close> or \<open>/sbin/mkfs.ext4\<close>, with
  the configured options, then the force flag of that formatter (\<open>--force\<close> for btrfs,
  \<open>-F\<close> for ext4), then the device; the round starts no other child process.
\<close>

theorem createFilesystems_formatter_arguments:
  assumes "Filesystem_Initialize fs"
    and "Filesystem_Format fs = ''btrfs'' \<or> Filesystem_Format fs = ''ext4''"
  shows "\<exists>r rest. snd (createFilesystems_fs w fs tr) =
      tr @ [(OpStart ''creating %q filesystem on %q''
               [S (Filesystem_Format fs), S (Filesystem_Device fs)], None),
            (Command (if Filesystem_Format fs = ''btrfs'' then ''/sbin/mkfs.btrfs'' else ''/sbin/mkfs.ext4'')
               (Filesystem_Options fs
                @ [if Filesystem_Format fs = ''btrfs'' then ''--force'' else ''-F'']
                @ [Filesystem_Device fs]), r)] @ rest
      \<and> commands rest = []"
  using assms by (rule createFilesystems_fs_formatter)

theorem createFilesystems_formatter_arguments_witness:
  "Filesystem_Initialize sda1
   \<and> (Filesystem_Format sda1 = ''btrfs'' \<or> Filesystem_Format sda1 = ''ext4'')
   \<and> Filesystem_Options sda1 = []
   \<and> (\<exists>r rest. snd (createFilesystems_fs host sda1 []) =
         [] @ [(OpStart ''creating %q filesystem on %q'' [S ''ext4'', S ''/dev/sda1''], None),
               (Command ''/sbin/mkfs.ext4'' [''-F'', ''/dev/sda1''], r)] @ rest
         \<and> commands rest = [])"
proof -
  have init: "Filesystem_Initialize sda1"
    and format: "Filesystem_Format sda1 = ''btrfs'' \<or> Filesystem_Format sda1 = ''ext4''"
    and opts: "Filesystem_Options sda1 = []"
    by (simp_all add: sda1_def)
  have fields: "Filesystem_Format sda1 = ''ext4''" "Filesystem_Device sda1 = ''/dev/sda1''"
    by (simp_all add: sda1_def)
  show ?thesis
    using createFilesystems_formatter_arguments [OF init format, of host "[]"] init format opts
    by (simp add: fields)
qed

lemma createFilesystems_loop_unsupported:
  assumes "Filesystem_Initialize fs" and "Filesystem_Format fs \<noteq> ''btrfs''"
    and "Filesystem_Format fs \<noteq> ''ext4''"
  shows "createFilesystems_loop w (fss1 @ fs # fss2) tr =
     (case createFilesystems_loop w fss1 tr of
        (Some err, t) \<Rightarrow> (Some err, t)
      | (None, t) \<Rightarrow> (Some (UnsupportedFormat (Filesystem_Format fs)), t))"
  using assms
  by (simp add: createFilesystems_loop_append createFilesystems_fs_unsupported
      cong: prod.case_cong option.case_cong)

text \<open>
  C5. When the configuration holds a filesystem entry with \<open>initialize\<close> set whose format
  is neither btrfs nor ext4, the filesystem phase returns an error. When the wait for the
  devices and the rounds of the entries before it return no error, the phase returns the
  unsupported-format error for that entry, and its trace is the trace reached before the
  entry followed by \<open>PopPrefix\<close>: for this entry no formatter has been started and nothing
  has been mounted.
\<close>

theorem createFilesystems_unsupported_format:
  assumes "Filesystem_Initialize fs" and "Filesystem_Format fs \<noteq> ''btrfs''"
    and "Filesystem_Format fs \<noteq> ''ext4''"
    and "Filesystems (Config_Storage config) = fss1 @ fs # fss2"
  shows "fst (createFilesystems w config tr) \<noteq> None
     \<and> (\<forall>t0 t1.
          waitOnDevices w (map Filesystem_Device (fss1 @ fs # fss2)) ''filesystems''
            (emit (PushPrefix ''createFilesystems'') tr) = (None, t0) \<longrightarrow>
          createFilesystems_loop w fss1 t0 = (None, t1) \<longrightarrow>
          createFilesystems w config tr =
            (Some (UnsupportedFormat (Filesystem_Format fs)), emit PopPrefix t1))"
proof (intro conjI allI impI)
  have loop: "fst (createFilesystems_loop w (fss1 @ fs # fss2) t) \<noteq> None" for t
    using assms(1-3) by (simp add: createFilesystems_loop_unsupported split: prod.splits option.splits)
  obtain r0 t0 where wait: "waitOnDevices w (map Filesystem_Device (fss1 @ fs # fss2)) ''filesystems''
      (emit (PushPrefix ''createFilesystems'') tr) = (r0, t0)"
    by (cases "waitOnDevices w (map Filesystem_Device (fss1 @ fs # fss2)) ''filesystems''
      (emit (PushPrefix ''createFilesystems'') tr)")
  obtain r1 t1 where rounds: "createFilesystems_loop w (fss1 @ fs # fss2) t0 = (r1, t1)"
    by (cases "createFilesystems_loop w (fss1 @ fs # fss2) t0")
  with loop [of t0] have "r1 \<noteq> None"
    by simp
  with wait rounds show "fst (createFilesystems w config tr) \<noteq> None"
    using assms(4) by (cases r0) (simp_all add: createFilesystems_def Let_def)
next
  fix t0 t1
  assume wait: "waitOnDevices w (map Filesystem_Device (fss1 @ fs # fss2)) ''filesystems''
            (emit (PushPrefix ''createFilesystems'') tr) = (None, t0)"
    and before: "createFilesystems_loop w fss1 t0 = (None, t1)"
  have "createFilesystems_loop w (fss1 @ fs # fss2) t0 =
      (Some (UnsupportedFormat (Filesystem_Format fs)), t1)"
    using assms(1-3) before by (simp add: createFilesystems_loop_unsupported)
  with wait show "createFilesystems w config tr =
            (Some (UnsupportedFormat (Filesystem_Format fs)), emit PopPrefix t1)"
    using assms(4) by (simp add: createFilesystems_def Let_def)
qed

theorem createFilesystems_unsupported_format_witness:
  "Filesystem_Initialize zfs \<and> Filesystem_Format zfs \<noteq> ''btrfs'' \<and> Filesystem_Format zfs \<noteq> ''ext4''
   \<and> Filesystems (Config_Storage zfs_config) = [] @ zfs # []
   \<and> fst (createFilesystems host zfs_config []) \<noteq> None
   \<and> createFilesystems host zfs_config [] =
       (Some (UnsupportedFormat ''zfs''),
        [(PushPrefix ''createFilesystems'', None),
         (OpStart ''waiting for devices %v'' [L [''/dev/sda2'']], None),
         (WaitOnDevices [''/dev/sda2''] ''filesystems'', None),
         (OpFinish ''waiting for devices %v'' [L [''/dev/sda2'']], None),
         (PopPrefix, None)])"
proof -
  let ?t0 = "[(PushPrefix ''createFilesystems'', None),
         (OpStart ''waiting for devices %v'' [L [''/dev/sda2'']], None),
         (WaitOnDevices [''/dev/sda2''] ''filesystems'', None),
         (OpFinish ''waiting for devices %v'' [L [''/dev/sda2'']], None)]"
  have init: "Filesystem_Initialize zfs" and nb: "Filesystem_Format zfs \<noteq> ''btrfs''"
    and ne: "Filesystem_Format zfs \<noteq> ''ext4''"
    by (simp_all add: zfs_def)
  have cfg: "Filesystems (Config_Storage zfs_config) = [] @ zfs # []"
    by (simp add: zfs_config_def no_config_def)
  have format: "Filesystem_Format zfs = ''zfs''"
    by (simp add: zfs_def)
  have wait: "waitOnDevices host (map Filesystem_Device ([] @ zfs # [])) ''filesystems''
      (emit (PushPrefix ''createFilesystems'') []) = (None, ?t0)"
    by (simp add: waitOnDevices_def LogOp_call emit_def host_def zfs_def)
  have before: "createFilesystems_loop host [] ?t0 = (None, ?t0)"
    by simp
  note inst = createFilesystems_unsupported_format [OF init nb ne cfg, of host "[]"]
  from inst have "fst (createFilesystems host zfs_config []) \<noteq> None"
    by blast
  moreover from inst wait before have "createFilesystems host zfs_config [] =
      (Some (UnsupportedFormat (Filesystem_Format zfs)), emit PopPrefix ?t0)"
    by blast
  ultimately show ?thesis
    using init nb ne cfg by (simp add: format emit_def)
qed

section \<open>The partition phase, disk by disk\<close>

lemma createPartitions_op_idle:
  assumes "\<not> Disk_WipeTable d" and "Disk_Partitions d = []"
  shows "createPartitions_op w d tr =
     (case outcome w (tr @ [(SgdiskBegin (Disk_Device d), None)]) (SgdiskCommit (Disk_Device d)) of
        Some err \<Rightarrow>
          (Some (CommitFailure err),
           tr @ [(SgdiskBegin (Disk_Device d), None), (SgdiskCommit (Disk_Device d), Some err)])
      | None \<Rightarrow>
          (None, tr @ [(SgdiskBegin (Disk_Device d), None), (SgdiskCommit (Disk_Device d), None)]))"
  using assms by (simp add: createPartitions_op_def call_def emit_def split: option.splits)

text \<open>
  C3, as the code has it. For a disk with no wipe request and no partitions that the loop
  of the partition phase reaches, the phase requests no wipe and creates no partition, but
  it does begin an operation on the device and commits it: the calls of its round are
  exactly \<open>sgdisk.Begin\<close> and \<open>Commit\<close>, and a failing commit ends the phase.
\<close>

theorem createPartitions_idle_disk:
  assumes "\<not> Disk_WipeTable d" and "Disk_Partitions d = []"
    and "createPartitions_disks w ds1 tr = (None, t1)"
  shows "createPartitions_disks w (ds1 @ d # ds2) tr =
     (case outcome w (t1 @ [(OpStart ''partitioning %q'' [S (Disk_Device d)], None),
                            (SgdiskBegin (Disk_Device d), None)])
             (SgdiskCommit (Disk_Device d)) of
        Some err \<Rightarrow>
          (Some (CommitFailure err),
           t1 @ [(OpStart ''partitioning %q'' [S (Disk_Device d)], None),
                 (SgdiskBegin (Disk_Device d), None),
                 (SgdiskCommit (Disk_Device d), Some err),
                 (OpFail ''partitioning %q'' [S (Disk_Device d)] (CommitFailure err), None)])
      | None \<Rightarrow>
          createPartitions_disks w ds2
            (t1 @ [(OpStart ''partitioning %q'' [S (Disk_Device d)], None),
                   (SgdiskBegin (Disk_Device d), None),
                   (SgdiskCommit (Disk_Device d), None),
                   (OpFinish ''partitioning %q'' [S (Disk_Device d)], None)]))"
  using assms
  by (simp add: createPartitions_disks_append createPartitions_op_idle LogOp_def emit_def
      split: option.splits)

theorem createPartitions_idle_disk_witness:
  "\<not> Disk_WipeTable sdb \<and> Disk_Partitions sdb = []
   \<and> fst (createPartitions_disks host [sda] []) = None
   \<and> createPartitions_disks host ([sda] @ sdb # []) [] =
       (None,
        snd (createPartitions_disks host [sda] [])
        @ [(OpStart ''partitioning %q'' [S ''/dev/sdb''], None),
           (SgdiskBegin ''/dev/sdb'', None),
           (SgdiskCommit ''/dev/sdb'', None),
           (OpFinish ''partitioning %q'' [S ''/dev/sdb''], None)])"
proof -
  have wipe: "\<not> Disk_WipeTable sdb" and parts: "Disk_Partitions sdb = []"
    and dev: "Disk_Device sdb = ''/dev/sdb''"
    by (simp_all add: sdb_def)
  have none: "fst (createPartitions_disks host [sda] []) = None"
    by code_simp
  then have before: "createPartitions_disks host [sda] [] = (None, snd (createPartitions_disks host [sda] []))"
    by (metis prod.collapse)
  have quiet: "outcome host t ev = None" for t ev
    by (simp add: host_def)
  show ?thesis
    using createPartitions_idle_disk [OF wipe parts before, of "[]"] wipe parts none
    by (simp add: dev quiet)
qed

text \<open>
  C3, as stated, fails: on a configuration whose only disk has no wipe request and no
  partitions, the partition phase begins an operation on that disk and commits it.
\<close>

theorem createPartitions_idle_disk_counterexample:
  "\<not> Disk_WipeTable sdb \<and> Disk_Partitions sdb = []
   \<and> createPartitions host sdb_config [] =
       (None,
        [(PushPrefix ''createPartitions'', None),
         (OpStart ''waiting for devices %v'' [L [''/dev/sdb'']], None),
         (WaitOnDevices [''/dev/sdb''] ''disks'', None),
         (OpFinish ''waiting for devices %v'' [L [''/dev/sdb'']], None),
         (OpStart ''partitioning %q'' [S ''/dev/sdb''], None),
         (SgdiskBegin ''/dev/sdb'', None),
         (SgdiskCommit ''/dev/sdb'', None),
         (OpFinish ''partitioning %q'' [S ''/dev/sdb''], None),
         (PopPrefix, None)])"
  by (simp add: sdb_def sdb_config_def no_config_def host_def createPartitions_def waitOnDevices_def
      LogOp_def call_def emit_def createPartitions_op_def Let_def)

section \<open>Every phase waits for its devices first\<close>

lemma createPartitions_parts_eq:
  "createPartitions_parts dev parts tr =
     tr @ map (\<lambda>part. (SgdiskCreatePartition dev (toSgdisk part), None)) parts"
  by (induction parts arbitrary: tr) (simp_all add: emit_def)

lemma createPartitions_op_extends: "\<exists>rest. snd (createPartitions_op w d tr) = tr @ rest"
  by (simp add: createPartitions_op_def createPartitions_parts_eq call_def emit_def Let_def
      split: option.splits)

lemma LogOp_extends:
  assumes "\<And>t. \<exists>rest. snd (op t) = t @ rest"
  shows "\<exists>rest. snd (LogOp op format a tr) = tr @ rest"
proof -
  obtain r t where run: "op (tr @ [(OpStart format a, None)]) = (r, t)"
    by (cases "op (tr @ [(OpStart format a, None)])")
  obtain rest where "t = (tr @ [(OpStart format a, None)]) @ rest"
    using assms [of "tr @ [(OpStart format a, None)]"] run by auto
  with run show ?thesis
    by (cases r) (simp_all add: LogOp_def emit_def)
qed

lemma createPartitions_disks_extends: "\<exists>rest. snd (createPartitions_disks w ds tr) = tr @ rest"
proof (induction ds arbitrary: tr)
  case Nil
  show ?case by simp
next
  case (Cons d ds)
  obtain r t where run: "LogOp (createPartitions_op w d) ''partitioning %q'' [S (Disk_Device d)] tr = (r, t)"
    by (cases "LogOp (createPartitions_op w d) ''partitioning %q'' [S (Disk_Device d)] tr")
  obtain rest where t: "t = tr @ rest"
    using LogOp_extends [of "createPartitions_op w d", OF createPartitions_op_extends] run
    by (metis snd_conv)
  show ?case
  proof (cases r)
    case None
    obtain rest' where "snd (createPartitions_disks w ds t) = t @ rest'"
      using Cons.IH by blast
    with None run t show ?thesis by simp
  next
    case (Some err)
    with run t show ?thesis by simp
  qed
qed

lemma createFilesystems_fs_extends: "\<exists>rest. snd (createFilesystems_fs w fs tr) = tr @ rest"
proof -
  have mkfs: "\<exists>rest. snd (createFilesystems_mkfs w fs tr) = tr @ rest"
    by (simp add: createFilesystems_mkfs_def LogCmd_def LogOp_call Let_def split: option.splits)
  obtain r t where run: "(if Filesystem_Initialize fs then createFilesystems_mkfs w fs tr else (None, tr)) = (r, t)"
    by (cases "if Filesystem_Initialize fs then createFilesystems_mkfs w fs tr else (None, tr)")
  obtain rest where t: "t = tr @ rest"
    using mkfs run by (cases "Filesystem_Initialize fs") auto
  obtain rest' where "snd (createFiles w fs t) = t @ rest'"
    using createFiles_extends by blast
  with run t show ?thesis
    by (cases r) (auto simp add: createFilesystems_fs_def split: prod.splits option.splits)
qed

lemma createFilesystems_loop_extends: "\<exists>rest. snd (createFilesystems_loop w fss tr) = tr @ rest"
proof (induction fss arbitrary: tr)
  case Nil
  show ?case by simp
next
  case (Cons fs fss)
  obtain r t where run: "createFilesystems_fs w fs tr = (r, t)"
    by (cases "createFilesystems_fs w fs tr")
  obtain rest where t: "t = tr @ rest"
    using createFilesystems_fs_extends [of w fs tr] run by auto
  show ?case
  proof (cases r)
    case None
    obtain rest' where "snd (createFilesystems_loop w fss t) = t @ rest'"
      using Cons.IH by blast
    with None run t show ?thesis by simp
  next
    case (Some err)
    with run t show ?thesis by simp
  qed
qed

lemma phase_waits_first:
  assumes "\<And>t. \<exists>rest. snd (loop t) = t @ rest"
  shows "waits_first w name ctxt devs tr
     (case (case waitOnDevices w devs ctxt (emit (PushPrefix name) tr) of
              (Some err, t1) \<Rightarrow> (Some err, t1)
            | (None, t1) \<Rightarrow> loop t1) of
        (r, t2) \<Rightarrow> (r, emit PopPrefix t2))"
proof (cases "outcome w (before_wait name devs tr) (WaitOnDevices devs ctxt)")
  case (Some err)
  then show ?thesis
    by (simp add: waits_first_def before_wait_def waitOnDevices_def LogOp_call emit_def)
next
  case None
  let ?t1 = "before_wait name devs tr
             @ [(WaitOnDevices devs ctxt, None), (OpFinish ''waiting for devices %v'' [L devs], None)]"
  obtain r t where run: "loop ?t1 = (r, t)"
    by (cases "loop ?t1")
  obtain rest where "t = ?t1 @ rest"
    using assms [of ?t1] run by auto
  with None run show ?thesis
    by (simp add: waits_first_def before_wait_def waitOnDevices_def LogOp_call emit_def)
qed

text \<open>
  C4, as the code has it. A phase whose list in the configuration is empty returns at once:
  it calls neither the device waiter nor anything else. A phase whose list is not empty
  waits first: after pushing its log prefix, its first call is the device waiter on the
  devices of its list (the disks; the members of all arrays; the devices of the
  filesystems), and when the wait fails the phase returns that error, wrapped, having made
  no other call than the logger's.
\<close>

theorem phases_wait_first:
  "(Disks (Config_Storage config) = [] \<longrightarrow> createPartitions w config tr = (None, tr))
   \<and> (Disks (Config_Storage config) \<noteq> [] \<longrightarrow>
        waits_first w ''createPartitions'' ''disks''
          (map Disk_Device (Disks (Config_Storage config))) tr (createPartitions w config tr))
   \<and> (Arrays (Config_Storage config) = [] \<longrightarrow> createRaids w config tr = (None, tr))
   \<and> (Arrays (Config_Storage config) \<noteq> [] \<longrightarrow>
        waits_first w ''createRaids'' ''raids''
          (concat (map Raid_Devices (Arrays (Config_Storage config)))) tr (createRaids w config tr))
   \<and> (Filesystems (Config_Storage config) = [] \<longrightarrow> createFilesystems w config tr = (None, tr))
   \<and> (Filesystems (Config_Storage config) \<noteq> [] \<longrightarrow>
        waits_first w ''createFilesystems'' ''filesystems''
          (map Filesystem_Device (Filesystems (Config_Storage config))) tr
          (createFilesystems w config tr))"
proof (intro conjI impI)
  assume "Disks (Config_Storage config) \<noteq> []"
  then show "waits_first w ''createPartitions'' ''disks''
          (map Disk_Device (Disks (Config_Storage config))) tr (createPartitions w config tr)"
    using phase_waits_first [of "createPartitions_disks w (Disks (Config_Storage config))",
        OF createPartitions_disks_extends]
    by (simp add: createPartitions_def Let_def)
next
  assume "Arrays (Config_Storage config) \<noteq> []"
  then show "waits_first w ''createRaids'' ''raids''
          (concat (map Raid_Devices (Arrays (Config_Storage config)))) tr (createRaids w config tr)"
    using phase_waits_first [of "createRaids_arrays w (Arrays (Config_Storage config))",
        OF createRaids_arrays_extends]
    by (simp add: createRaids_def Let_def)
next
  assume "Filesystems (Config_Storage config) \<noteq> []"
  then show "waits_first w ''createFilesystems'' ''filesystems''
          (map Filesystem_Device (Filesystems (Config_Storage config))) tr
          (createFilesystems w config tr)"
    using phase_waits_first [of "createFilesystems_loop w (Filesystems (Config_Storage config))",
        OF createFilesystems_loop_extends]
    by (simp add: createFilesystems_def Let_def)
qed (simp_all add: createPartitions_def createRaids_def createFilesystems_def)

theorem phases_wait_first_witness:
  "Disks (Config_Storage example_config) \<noteq> []
   \<and> createPartitions (failing (WaitOnDevices [''/dev/sda''] ''disks'')) example_config [] =
       (Some (WaitFailed ''disks'' (External ''injected'')),
        [(PushPrefix ''createPartitions'', None),
         (OpStart ''waiting for devices %v'' [L [''/dev/sda'']], None),
         (WaitOnDevices [''/dev/sda''] ''disks'', Some (External ''injected'')),
         (OpFail ''waiting for devices %v'' [L [''/dev/sda'']] (External ''injected''), None),
         (PopPrefix, None)])
   \<and> Arrays (Config_Storage example_config) \<noteq> []
   \<and> createRaids (failing (WaitOnDevices (Raid_Devices md0) ''raids'')) example_config [] =
       (Some (WaitFailed ''raids'' (External ''injected'')),
        [(PushPrefix ''createRaids'', None),
         (OpStart ''waiting for devices %v'' [L (Raid_Devices md0)], None),
         (WaitOnDevices (Raid_Devices md0) ''raids'', Some (External ''injected'')),
         (OpFail ''waiting for devices %v'' [L (Raid_Devices md0)] (External ''injected''), None),
         (PopPrefix, None)])
   \<and> Filesystems (Config_Storage example_config) \<noteq> []
   \<and> createFilesystems (failing (WaitOnDevices [''/dev/sda1''] ''filesystems'')) example_config [] =
       (Some (WaitFailed ''filesystems'' (External ''injected'')),
        [(PushPrefix ''createFilesystems'', None),
         (OpStart ''waiting for devices %v'' [L [''/dev/sda1'']], None),
         (WaitOnDevices [''/dev/sda1''] ''filesystems'', Some (External ''injected'')),
         (OpFail ''waiting for devices %v'' [L [''/dev/sda1'']] (External ''injected''), None),
         (PopPrefix, None)])
   \<and> Disks (Config_Storage no_config) = [] \<and> Arrays (Config_Storage no_config) = []
   \<and> Filesystems (Config_Storage no_config) = []
   \<and> createPartitions (failing (WaitOnDevices [] ''disks'')) no_config [] = (None, [])
   \<and> createRaids (failing (WaitOnDevices [] ''raids'')) no_config [] = (None, [])
   \<and> createFilesystems (failing (WaitOnDevices [] ''filesystems'')) no_config [] = (None, [])"
proof -
  have lists: "Disks (Config_Storage example_config) \<noteq> []" "Arrays (Config_Storage example_config) \<noteq> []"
    "Filesystems (Config_Storage example_config) \<noteq> []"
    by (simp_all add: example_config_def)
  have devs: "map Disk_Device (Disks (Config_Storage example_config)) = [''/dev/sda'']"
    "concat (map Raid_Devices (Arrays (Config_Storage example_config))) = Raid_Devices md0"
    "map Filesystem_Device (Filesystems (Config_Storage example_config)) = [''/dev/sda1'']"
    by (simp_all add: example_config_def sda_def sda1_def)
  have empty: "Disks (Config_Storage no_config) = []" "Arrays (Config_Storage no_config) = []"
    "Filesystems (Config_Storage no_config) = []"
    by (simp_all add: no_config_def)
  have fails: "outcome (failing ev) t ev = Some (External ''injected'')" for ev t
    by (simp add: failing_def)
  have disks: "createPartitions (failing (WaitOnDevices [''/dev/sda''] ''disks'')) example_config [] =
       (Some (WaitFailed ''disks'' (External ''injected'')),
        [(PushPrefix ''createPartitions'', None),
         (OpStart ''waiting for devices %v'' [L [''/dev/sda'']], None),
         (WaitOnDevices [''/dev/sda''] ''disks'', Some (External ''injected'')),
         (OpFail ''waiting for devices %v'' [L [''/dev/sda'']] (External ''injected''), None),
         (PopPrefix, None)])"
    using phases_wait_first [of example_config "failing (WaitOnDevices [''/dev/sda''] ''disks'')" "[]"]
      lists
    by (simp add: devs waits_first_def before_wait_def fails)
  have raids: "createRaids (failing (WaitOnDevices (Raid_Devices md0) ''raids'')) example_config [] =
       (Some (WaitFailed ''raids'' (External ''injected'')),
        [(PushPrefix ''createRaids'', None),
         (OpStart ''waiting for devices %v'' [L (Raid_Devices md0)], None),
         (WaitOnDevices (Raid_Devices md0) ''raids'', Some (External ''injected'')),
         (OpFail ''waiting for devices %v'' [L (Raid_Devices md0)] (External ''injected''), None),
         (PopPrefix, None)])"
    using phases_wait_first [of example_config "failing (WaitOnDevices (Raid_Devices md0) ''raids'')" "[]"]
      lists
    by (simp add: devs waits_first_def before_wait_def fails)
  have filesystems:
    "createFilesystems (failing (WaitOnDevices [''/dev/sda1''] ''filesystems'')) example_config [] =
       (Some (WaitFailed ''filesystems'' (External ''injected'')),
        [(PushPrefix ''createFilesystems'', None),
         (OpStart ''waiting for devices %v'' [L [''/dev/sda1'']], None),
         (WaitOnDevices [''/dev/sda1''] ''filesystems'', Some (External ''injected'')),
         (OpFail ''waiting for devices %v'' [L [''/dev/sda1'']] (External ''injected''), None),
         (PopPrefix, None)])"
    using phases_wait_first [of example_config "failing (WaitOnDevices [''/dev/sda1''] ''filesystems'')" "[]"]
      lists
    by (simp add: devs waits_first_def before_wait_def fails)
  have none: "createPartitions (failing (WaitOnDevices [] ''disks'')) no_config [] = (None, [])"
    "createRaids (failing (WaitOnDevices [] ''raids'')) no_config [] = (None, [])"
    "createFilesystems (failing (WaitOnDevices [] ''filesystems'')) no_config [] = (None, [])"
    using phases_wait_first [of no_config "failing (WaitOnDevices [] ''disks'')" "[]"]
      phases_wait_first [of no_config "failing (WaitOnDevices [] ''raids'')" "[]"]
      phases_wait_first [of no_config "failing (WaitOnDevices [] ''filesystems'')" "[]"]
      empty
    by simp_all
  show ?thesis
    using lists disks raids filesystems empty none by (intro conjI)
qed

text \<open>
  C4, as stated, fails: on a configuration with no disks, arrays or filesystems no phase
  calls the device waiter; each returns at once with an unchanged trace.
\<close>

theorem phases_wait_first_counterexample:
  "createPartitions host no_config [] = (None, [])
   \<and> createRaids host no_config [] = (None, [])
   \<and> createFilesystems host no_config [] = (None, [])
   \<and> WaitOnDevices [] ''disks'' \<notin> fst ` set (snd (createPartitions host no_config []))
   \<and> WaitOnDevices [] ''raids'' \<notin> fst ` set (snd (createRaids host no_config []))
   \<and> WaitOnDevices [] ''filesystems'' \<notin> fst ` set (snd (createFilesystems host no_config []))"
  by (simp add: createPartitions_def createRaids_def createFilesystems_def no_config_def)

section \<open>The scoped mount\<close>

text \<open>
  C2, as the code has it. Let the filesystem have files and the temporary directory be
  created. If the mount returns no error, the value \<open>createFiles\<close> returns is the value of
  the loop that writes the files (no error, or the first write error), whatever the
  unmount returns, and the trace ends with the unmount of the directory, its removal and
  \<open>PopPrefix\<close>. If the mount returns an error, \<open>createFiles\<close> returns it wrapped, no unmount
  is attempted, and the directory is removed.
\<close>

theorem createFiles_unmounts_after_mount:
  assumes "Filesystem_Files fs \<noteq> []"
    and "outcome w (tr @ [(PushPrefix ''createFiles'', None)]) (TempDir [] ''ignition-files'') = None"
  shows "let mnt = tempname w (tr @ [(PushPrefix ''createFiles'', None)]);
             dev = Filesystem_Device fs;
             mount = Mount dev mnt (Filesystem_Format fs) 0 [];
             t1 = tr @ [(PushPrefix ''createFiles'', None), (TempDir [] ''ignition-files'', None),
                        (OpStart ''mounting %q at %q'' [S dev, S mnt], None)]
         in case outcome w t1 mount of
              None \<Rightarrow>
                (\<exists>t3 ru rr.
                   createFiles_files w mnt (Filesystem_Files fs)
                     (t1 @ [(mount, None), (OpFinish ''mounting %q at %q'' [S dev, S mnt], None)])
                   = (fst (createFiles w fs tr), t3)
                   \<and> snd (createFiles w fs tr) =
                       t3 @ [(OpStart ''unmounting %q at %q'' [S dev, S mnt], None),
                             (Unmount mnt 0, ru),
                             (case ru of None \<Rightarrow> OpFinish ''unmounting %q at %q'' [S dev, S mnt]
                                | Some err \<Rightarrow> OpFail ''unmounting %q at %q'' [S dev, S mnt] err, None),
                             (Remove mnt, rr),
                             (PopPrefix, None)])
            | Some err \<Rightarrow>
                (\<exists>rr. createFiles w fs tr =
                   (Some (MountFailed dev mnt err),
                    t1 @ [(mount, Some err),
                          (OpFail ''mounting %q at %q'' [S dev, S mnt] err, None),
                          (Remove mnt, rr),
                          (PopPrefix, None)]))"
proof -
  let ?mnt = "tempname w (tr @ [(PushPrefix ''createFiles'', None)])"
  let ?dev = "Filesystem_Device fs"
  let ?mount = "Mount ?dev ?mnt (Filesystem_Format fs) 0 []"
  let ?t1 = "tr @ [(PushPrefix ''createFiles'', None), (TempDir [] ''ignition-files'', None),
                   (OpStart ''mounting %q at %q'' [S ?dev, S ?mnt], None)]"
  show ?thesis
  proof (cases "outcome w ?t1 ?mount")
    case (Some err)
    with assms show ?thesis
      by (simp add: createFiles_def call_def emit_def LogOp_def Let_def)
  next
    case None
    obtain r t3 where loop: "createFiles_files w ?mnt (Filesystem_Files fs)
        (?t1 @ [(?mount, None), (OpFinish ''mounting %q at %q'' [S ?dev, S ?mnt], None)]) = (r, t3)"
      by (cases "createFiles_files w ?mnt (Filesystem_Files fs)
        (?t1 @ [(?mount, None), (OpFinish ''mounting %q at %q'' [S ?dev, S ?mnt], None)])")
    with assms None show ?thesis
      by (simp add: createFiles_def call_def emit_def LogOp_def Let_def split: option.splits)
  qed
qed

theorem createFiles_unmounts_after_mount_witness:
  "Filesystem_Files sda1 \<noteq> []
   \<and> (\<exists>ru rr.
        createFiles (failing (WriteFile ''/tmp/ignition-files123'' hostname)) sda1 [] =
          (Some (CreateFileFailed ''/etc/hostname'' (External ''injected'')),
           [(PushPrefix ''createFiles'', None),
            (TempDir [] ''ignition-files'', None),
            (OpStart ''mounting %q at %q'' [S ''/dev/sda1'', S ''/tmp/ignition-files123''], None),
            (Mount ''/dev/sda1'' ''/tmp/ignition-files123'' ''ext4'' 0 [], None),
            (OpFinish ''mounting %q at %q'' [S ''/dev/sda1'', S ''/tmp/ignition-files123''], None),
            (OpStart ''writing file %q'' [S ''/etc/hostname''], None),
            (WriteFile ''/tmp/ignition-files123'' hostname, Some (External ''injected'')),
            (OpFail ''writing file %q'' [S ''/etc/hostname''] (External ''injected''), None),
            (OpStart ''unmounting %q at %q'' [S ''/dev/sda1'', S ''/tmp/ignition-files123''], None),
            (Unmount ''/tmp/ignition-files123'' 0, ru),
            (case ru of
               None \<Rightarrow> OpFinish ''unmounting %q at %q'' [S ''/dev/sda1'', S ''/tmp/ignition-files123'']
             | Some err \<Rightarrow> OpFail ''unmounting %q at %q'' [S ''/dev/sda1'', S ''/tmp/ignition-files123''] err,
             None),
            (Remove ''/tmp/ignition-files123'', rr),
            (PopPrefix, None)]))
   \<and> fst (createFiles (failing (Unmount ''/tmp/ignition-files123'' 0)) sda1 []) = None
   \<and> (\<exists>rr.
        createFiles (failing (Mount ''/dev/sda1'' ''/tmp/ignition-files123'' ''ext4'' 0 [])) sda1 [] =
          (Some (MountFailed ''/dev/sda1'' ''/tmp/ignition-files123'' (External ''injected'')),
           [(PushPrefix ''createFiles'', None),
            (TempDir [] ''ignition-files'', None),
            (OpStart ''mounting %q at %q'' [S ''/dev/sda1'', S ''/tmp/ignition-files123''], None),
            (Mount ''/dev/sda1'' ''/tmp/ignition-files123'' ''ext4'' 0 [], Some (External ''injected'')),
            (OpFail ''mounting %q at %q'' [S ''/dev/sda1'', S ''/tmp/ignition-files123'']
               (External ''injected''), None),
            (Remove ''/tmp/ignition-files123'', rr),
            (PopPrefix, None)]))"
proof -
  let ?ww = "failing (WriteFile ''/tmp/ignition-files123'' hostname)"
  let ?wu = "failing (Unmount ''/tmp/ignition-files123'' 0)"
  let ?wm = "failing (Mount ''/dev/sda1'' ''/tmp/ignition-files123'' ''ext4'' 0 [])"
  have files: "Filesystem_Files sda1 \<noteq> []"
    by (simp add: sda1_def)
  have fields: "Filesystem_Files sda1 = [hostname]" "Filesystem_Device sda1 = ''/dev/sda1''"
    "Filesystem_Format sda1 = ''ext4''" "File_Path hostname = ''/etc/hostname''"
    by (simp_all add: sda1_def hostname_def)
  have temp: "outcome (failing ev) ([] @ [(PushPrefix ''createFiles'', None)]) (TempDir [] ''ignition-files'')
      = (if TempDir [] ''ignition-files'' = ev then Some (External ''injected'') else None)" for ev
    by (simp add: failing_def)
  have name: "tempname (failing ev) t = ''/tmp/ignition-files123''" for ev t
    by (simp add: failing_def host_def)
  have out: "outcome (failing ev) t e = (if e = ev then Some (External ''injected'') else None)" for ev t e
    by (simp add: failing_def)
  have wfail: "\<exists>ru rr.
        createFiles ?ww sda1 [] =
          (Some (CreateFileFailed ''/etc/hostname'' (External ''injected'')),
           [(PushPrefix ''createFiles'', None),
            (TempDir [] ''ignition-files'', None),
            (OpStart ''mounting %q at %q'' [S ''/dev/sda1'', S ''/tmp/ignition-files123''], None),
            (Mount ''/dev/sda1'' ''/tmp/ignition-files123'' ''ext4'' 0 [], None),
            (OpFinish ''mounting %q at %q'' [S ''/dev/sda1'', S ''/tmp/ignition-files123''], None),
            (OpStart ''writing file %q'' [S ''/etc/hostname''], None),
            (WriteFile ''/tmp/ignition-files123'' hostname, Some (External ''injected'')),
            (OpFail ''writing file %q'' [S ''/etc/hostname''] (External ''injected''), None),
            (OpStart ''unmounting %q at %q'' [S ''/dev/sda1'', S ''/tmp/ignition-files123''], None),
            (Unmount ''/tmp/ignition-files123'' 0, ru),
            (case ru of
               None \<Rightarrow> OpFinish ''unmounting %q at %q'' [S ''/dev/sda1'', S ''/tmp/ignition-files123'']
             | Some err \<Rightarrow> OpFail ''unmounting %q at %q'' [S ''/dev/sda1'', S ''/tmp/ignition-files123''] err,
             None),
            (Remove ''/tmp/ignition-files123'', rr),
            (PopPrefix, None)])"
    using createFiles_unmounts_after_mount [of sda1 ?ww "[]"] files
    by (simp add: Let_def fields name out LogOp_call prod_eq_iff)
  have ufail: "fst (createFiles ?wu sda1 []) = None"
    using createFiles_unmounts_after_mount [of sda1 ?wu "[]"] files
    by (auto simp add: Let_def fields name out LogOp_call prod_eq_iff)
  have mfail: "\<exists>rr.
        createFiles ?wm sda1 [] =
          (Some (MountFailed ''/dev/sda1'' ''/tmp/ignition-files123'' (External ''injected'')),
           [(PushPrefix ''createFiles'', None),
            (TempDir [] ''ignition-files'', None),
            (OpStart ''mounting %q at %q'' [S ''/dev/sda1'', S ''/tmp/ignition-files123''], None),
            (Mount ''/dev/sda1'' ''/tmp/ignition-files123'' ''ext4'' 0 [], Some (External ''injected'')),
            (OpFail ''mounting %q at %q'' [S ''/dev/sda1'', S ''/tmp/ignition-files123'']
               (External ''injected''), None),
            (Remove ''/tmp/ignition-files123'', rr),
            (PopPrefix, None)])"
    using createFiles_unmounts_after_mount [of sda1 ?wm "[]"] files
    by (simp add: Let_def fields name out)
  show ?thesis
    using files wfail ufail mfail by (intro conjI)
qed

text \<open>
  C2, as stated, fails on the mount-failure path: when the mount returns an error,
  \<open>createFiles\<close> returns before the unmount is registered, so no unmount is attempted;
  the temporary directory is removed all the same.
\<close>

theorem createFiles_unmounts_after_mount_counterexample:
  "createFiles (failing (Mount ''/dev/sda1'' ''/tmp/ignition-files123'' ''ext4'' 0 [])) sda1 [] =
     (Some (MountFailed ''/dev/sda1'' ''/tmp/ignition-files123'' (External ''injected'')),
      [(PushPrefix ''createFiles'', None),
       (TempDir [] ''ignition-files'', None),
       (OpStart ''mounting %q at %q'' [S ''/dev/sda1'', S ''/tmp/ignition-files123''], None),
       (Mount ''/dev/sda1'' ''/tmp/ignition-files123'' ''ext4'' 0 [], Some (External ''injected'')),
       (OpFail ''mounting %q at %q'' [S ''/dev/sda1'', S ''/tmp/ignition-files123'']
          (External ''injected''), None),
       (Remove ''/tmp/ignition-files123'', None),
       (PopPrefix, None)])
   \<and> Unmount ''/tmp/ignition-files123'' 0 \<notin>
       fst ` set (snd (createFiles (failing (Mount ''/dev/sda1'' ''/tmp/ignition-files123'' ''ext4'' 0 []))
                         sda1 []))"
proof -
  have run: "createFiles (failing (Mount ''/dev/sda1'' ''/tmp/ignition-files123'' ''ext4'' 0 [])) sda1 [] =
     (Some (MountFailed ''/dev/sda1'' ''/tmp/ignition-files123'' (External ''injected'')),
      [(PushPrefix ''createFiles'', None),
       (TempDir [] ''ignition-files'', None),
       (OpStart ''mounting %q at %q'' [S ''/dev/sda1'', S ''/tmp/ignition-files123''], None),
       (Mount ''/dev/sda1'' ''/tmp/ignition-files123'' ''ext4'' 0 [], Some (External ''injected'')),
       (OpFail ''mounting %q at %q'' [S ''/dev/sda1'', S ''/tmp/ignition-files123'']
          (External ''injected''), None),
       (Remove ''/tmp/ignition-files123'', None),
       (PopPrefix, None)])"
    by (simp add: createFiles_def sda1_def failing_def host_def call_def emit_def LogOp_def Let_def)
  show ?thesis
    unfolding run by simp
qed

section \<open>The calls of a successful round\<close>

lemma fst_LogOp: "fst (LogOp op format a tr) = fst (op (tr @ [(OpStart format a, None)]))"
  by (cases "op (tr @ [(OpStart format a, None)])")
    (simp add: LogOp_def emit_def split: option.splits)

lemma calls_LogOp:
  "calls (snd (LogOp op format a tr)) = calls (snd (op (tr @ [(OpStart format a, None)])))"
  by (cases "op (tr @ [(OpStart format a, None)])")
    (simp add: LogOp_def emit_def calls_def split: option.splits)

lemma commands_LogOp:
  "commands (snd (LogOp op format a tr)) = commands (snd (op (tr @ [(OpStart format a, None)])))"
  by (cases "op (tr @ [(OpStart format a, None)])")
    (simp add: LogOp_def emit_def commands_def split: option.splits)

lemma calls_log [simp]: "is_log ev \<Longrightarrow> calls (tr @ [(ev, r)]) = calls tr"
  by (simp add: calls_def)

lemma calls_call: "\<not> is_log ev \<Longrightarrow> calls (snd (call w ev tr)) = calls tr @ [ev]"
  by (simp add: call_def calls_def)

lemma fst_call: "fst (call w ev tr) = outcome w tr ev"
  by (simp add: call_def)

lemma createFiles_files_calls:
  "fst (createFiles_files w mnt fs tr) = None \<Longrightarrow>
   calls (snd (createFiles_files w mnt fs tr)) = calls tr @ map (WriteFile mnt) fs"
proof (induction fs arbitrary: tr)
  case Nil
  show ?case by simp
next
  case (Cons f fs)
  let ?t0 = "tr @ [(OpStart ''writing file %q'' [S (File_Path f)], None)]"
  show ?case
  proof (cases "outcome w ?t0 (WriteFile mnt f)")
    case (Some err)
    with Cons.prems show ?thesis
      by (simp add: LogOp_call)
  next
    case None
    let ?t1 = "tr @ [(OpStart ''writing file %q'' [S (File_Path f)], None), (WriteFile mnt f, None),
                     (OpFinish ''writing file %q'' [S (File_Path f)], None)]"
    from None Cons.prems have "fst (createFiles_files w mnt fs ?t1) = None"
      by (simp add: LogOp_call)
    then have "calls (snd (createFiles_files w mnt fs ?t1)) = calls ?t1 @ map (WriteFile mnt) fs"
      by (rule Cons.IH)
    with None show ?thesis
      by (simp add: LogOp_call calls_def)
  qed
qed

lemma createFiles_calls:
  assumes "Filesystem_Files fs \<noteq> []" and "fst (createFiles w fs tr) = None"
  shows "calls (snd (createFiles w fs tr)) =
     calls tr @ scoped_mount_calls (tempname w (tr @ [(PushPrefix ''createFiles'', None)])) fs"
proof -
  let ?t0 = "tr @ [(PushPrefix ''createFiles'', None)]"
  let ?mnt = "tempname w ?t0"
  let ?dev = "Filesystem_Device fs"
  let ?mount = "Mount ?dev ?mnt (Filesystem_Format fs) 0 []"
  let ?t1 = "?t0 @ [(TempDir [] ''ignition-files'', None),
                    (OpStart ''mounting %q at %q'' [S ?dev, S ?mnt], None)]"
  let ?t2 = "?t1 @ [(?mount, None), (OpFinish ''mounting %q at %q'' [S ?dev, S ?mnt], None)]"
  have temp: "outcome w ?t0 (TempDir [] ''ignition-files'') = None"
    using assms by (cases "outcome w ?t0 (TempDir [] ''ignition-files'')")
      (simp_all add: createFiles_def call_def emit_def)
  have mount: "outcome w ?t1 ?mount = None"
    using assms temp by (cases "outcome w ?t1 ?mount")
      (simp_all add: createFiles_def call_def emit_def LogOp_def Let_def)
  obtain r t3 where loop: "createFiles_files w ?mnt (Filesystem_Files fs) ?t2 = (r, t3)"
    by (cases "createFiles_files w ?mnt (Filesystem_Files fs) ?t2")
  have r: "r = None"
    using assms temp mount loop
    by (simp add: createFiles_def call_def emit_def LogOp_def Let_def split: option.splits)
  have "calls t3 = calls ?t2 @ map (WriteFile ?mnt) (Filesystem_Files fs)"
    using createFiles_files_calls [of w ?mnt "Filesystem_Files fs" ?t2] loop r by simp
  then show ?thesis
    using assms(1) temp mount loop
    by (simp add: createFiles_def call_def emit_def LogOp_def Let_def calls_def scoped_mount_calls_def
        split: option.splits)
qed

lemma createFiles_commands: "commands (snd (createFiles w fs tr)) = commands tr"
proof -
  obtain rest where "snd (createFiles w fs tr) = tr @ rest" and "commands rest = []"
    using createFiles_extends by blast
  then show ?thesis
    by (simp add: commands_append)
qed

text \<open>
  C9. For a filesystem entry with \<open>initialize\<close> not set, the round of the loop starts no
  child process: no formatter is invoked. When the entry has files and the round returns
  no error, its calls are those of the scoped-mount protocol: temporary directory, mount of
  the device with the entry's format, the files in configuration order, unmount, removal
  of the directory. The file population does not read the \<open>initialize\<close> flag: it is the one
  an initialized filesystem gets.
\<close>

theorem createFilesystems_without_initialize:
  assumes "\<not> Filesystem_Initialize fs"
  shows "commands (snd (createFilesystems_fs w fs tr)) = commands tr
     \<and> (Filesystem_Files fs \<noteq> [] \<and> fst (createFilesystems_fs w fs tr) = None \<longrightarrow>
          calls (snd (createFilesystems_fs w fs tr)) =
            calls tr @ scoped_mount_calls (tempname w (tr @ [(PushPrefix ''createFiles'', None)])) fs)
     \<and> (\<forall>t. createFiles w (fs\<lparr>Filesystem_Initialize := True\<rparr>) t = createFiles w fs t)"
proof (intro conjI impI allI)
  have round: "snd (createFilesystems_fs w fs tr) = snd (createFiles w fs tr)"
    "fst (createFilesystems_fs w fs tr) = None \<longleftrightarrow> fst (createFiles w fs tr) = None"
    using assms by (simp_all add: createFilesystems_fs_def split: prod.splits option.splits)
  show "commands (snd (createFilesystems_fs w fs tr)) = commands tr"
    by (simp add: round createFiles_commands)
  show "calls (snd (createFilesystems_fs w fs tr)) =
            calls tr @ scoped_mount_calls (tempname w (tr @ [(PushPrefix ''createFiles'', None)])) fs"
    if "Filesystem_Files fs \<noteq> [] \<and> fst (createFilesystems_fs w fs tr) = None"
    using that by (simp add: round createFiles_calls)
  show "createFiles w (fs\<lparr>Filesystem_Initialize := True\<rparr>) t = createFiles w fs t" for t
    by (simp add: createFiles_def Let_def cong: prod.case_cong option.case_cong)
qed

theorem createFilesystems_without_initialize_witness:
  "\<not> Filesystem_Initialize sda3 \<and> Filesystem_Files sda3 \<noteq> []
   \<and> fst (createFilesystems_fs host sda3 []) = None
   \<and> commands (snd (createFilesystems_fs host sda3 [])) = []
   \<and> calls (snd (createFilesystems_fs host sda3 [])) =
       [TempDir [] ''ignition-files'',
        Mount ''/dev/sda3'' ''/tmp/ignition-files123'' ''ext4'' 0 [],
        WriteFile ''/tmp/ignition-files123'' hostname,
        Unmount ''/tmp/ignition-files123'' 0,
        Remove ''/tmp/ignition-files123'']"
proof -
  have init: "\<not> Filesystem_Initialize sda3" and files: "Filesystem_Files sda3 \<noteq> []"
    by (simp_all add: sda3_def)
  have ok: "fst (createFilesystems_fs host sda3 []) = None"
    by code_simp
  have plan: "scoped_mount_calls (tempname host [(PushPrefix ''createFiles'', None)]) sda3 =
       [TempDir [] ''ignition-files'',
        Mount ''/dev/sda3'' ''/tmp/ignition-files123'' ''ext4'' 0 [],
        WriteFile ''/tmp/ignition-files123'' hostname,
        Unmount ''/tmp/ignition-files123'' 0,
        Remove ''/tmp/ignition-files123'']"
    by (simp add: scoped_mount_calls_def host_def sda3_def)
  have nil: "commands [] = []" "calls [] = []"
    by (simp_all add: commands_def calls_def)
  show ?thesis
    using createFilesystems_without_initialize [OF init, of host "[]"] init files ok
    by (simp add: plan nil)
qed

section \<open>The unit phase, unit by unit\<close>

lemma writeSystemdUnit_dropins_calls:
  "fst (writeSystemdUnit_dropins w s unit dropins tr) = None \<Longrightarrow>
   calls (snd (writeSystemdUnit_dropins w s unit dropins tr)) =
     calls tr @ map (\<lambda>dropin. WriteFile (DestDir s) (FileFromUnitDropin w unit dropin))
                  (filter (\<lambda>dropin. DropIn_Contents dropin \<noteq> []) dropins)"
proof (induction dropins arbitrary: tr)
  case Nil
  show ?case by simp
next
  case (Cons dropin dropins)
  show ?case
  proof (cases "DropIn_Contents dropin = []")
    case True
    with Cons show ?thesis by simp
  next
    case contents: False
    let ?f = "FileFromUnitDropin w unit dropin"
    let ?t0 = "tr @ [(OpStart ''writing dropin %q at %q'' [S (DropIn_Name dropin), S (File_Path ?f)], None)]"
    show ?thesis
    proof (cases "outcome w ?t0 (WriteFile (DestDir s) ?f)")
      case (Some err)
      with contents Cons.prems show ?thesis
        by (simp add: LogOp_call Let_def)
    next
      case None
      let ?t1 = "tr @ [(OpStart ''writing dropin %q at %q'' [S (DropIn_Name dropin), S (File_Path ?f)], None),
                       (WriteFile (DestDir s) ?f, None),
                       (OpFinish ''writing dropin %q at %q'' [S (DropIn_Name dropin), S (File_Path ?f)], None)]"
      from None contents Cons.prems have "fst (writeSystemdUnit_dropins w s unit dropins ?t1) = None"
        by (simp add: LogOp_call Let_def)
      then have "calls (snd (writeSystemdUnit_dropins w s unit dropins ?t1)) =
          calls ?t1 @ map (\<lambda>dropin. WriteFile (DestDir s) (FileFromUnitDropin w unit dropin))
                        (filter (\<lambda>dropin. DropIn_Contents dropin \<noteq> []) dropins)"
        by (rule Cons.IH)
      with None contents show ?thesis
        by (simp add: LogOp_call Let_def calls_def)
    qed
  qed
qed

lemma writeSystemdUnit_calls:
  assumes "fst (writeSystemdUnit w s unit tr) = None"
  shows "calls (snd (writeSystemdUnit w s unit tr)) =
     calls tr
     @ map (\<lambda>dropin. WriteFile (DestDir s) (FileFromUnitDropin w unit dropin))
         (filter (\<lambda>dropin. DropIn_Contents dropin \<noteq> []) (SystemdUnit_DropIns unit))
     @ (if SystemdUnit_Contents unit \<noteq> [] then [WriteFile (DestDir s) (FileFromSystemdUnit w unit)] else [])"
proof -
  let ?t0 = "tr @ [(OpStart ''writing unit %q'' [S (SystemdUnit_Name unit)], None)]"
  obtain r t1 where dropins: "writeSystemdUnit_dropins w s unit (SystemdUnit_DropIns unit) ?t0 = (r, t1)"
    by (cases "writeSystemdUnit_dropins w s unit (SystemdUnit_DropIns unit) ?t0")
  have r: "r = None"
    using assms dropins by (cases r) (simp_all add: writeSystemdUnit_def fst_LogOp)
  have t1: "calls t1 = calls tr
     @ map (\<lambda>dropin. WriteFile (DestDir s) (FileFromUnitDropin w unit dropin))
         (filter (\<lambda>dropin. DropIn_Contents dropin \<noteq> []) (SystemdUnit_DropIns unit))"
    using writeSystemdUnit_dropins_calls [of w s unit "SystemdUnit_DropIns unit" ?t0] dropins r
    by simp
  let ?f = "FileFromSystemdUnit w unit"
  have "calls (snd (writeSystemdUnit w s unit tr)) =
      calls (snd (if SystemdUnit_Contents unit = [] then (None, t1)
                  else LogOp (call w (WriteFile (DestDir s) ?f)) ''writing unit %q at %q''
                         [S (SystemdUnit_Name unit), S (File_Path ?f)] t1))"
    using dropins r by (simp add: writeSystemdUnit_def calls_LogOp Let_def)
  also have "\<dots> = calls t1
      @ (if SystemdUnit_Contents unit \<noteq> [] then [WriteFile (DestDir s) ?f] else [])"
    by (simp add: calls_LogOp calls_call)
  finally show ?thesis
    by (simp add: t1)
qed

lemma EnableUnit_calls:
  assumes "fst (EnableUnit w d unit tr) = None"
  shows "calls (snd (EnableUnit w d unit tr)) =
     calls tr
     @ [MkdirForFile (JoinPath w d [presetPath]),
        OpenFile (JoinPath w d [presetPath]) [O_RDWR, O_APPEND, O_CREATE] DefaultPresetPermissions,
        WriteString (JoinPath w d [presetPath]) (''enable '' @ SystemdUnit_Name unit @ [CHR 0x0A]),
        Close (JoinPath w d [presetPath])]"
  using assms
  by (simp add: EnableUnit_def call_def emit_def calls_def Let_def split: option.splits)

lemma MaskUnit_calls:
  assumes "fst (MaskUnit w d unit tr) = None"
  shows "calls (snd (MaskUnit w d unit tr)) =
     calls tr
     @ [MkdirForFile (JoinPath w d [SystemdUnitsPath w, SystemdUnit_Name unit]),
        Symlink ''/dev/null'' (JoinPath w d [SystemdUnitsPath w, SystemdUnit_Name unit])]"
  using assms
  by (simp add: MaskUnit_def call_def calls_def Let_def split: option.splits)

lemma createUnits_unit_success_calls:
  assumes "fst (createUnits_unit w s unit tr) = None"
  shows "calls (snd (createUnits_unit w s unit tr)) = calls tr @ unit_calls w s unit"
proof -
  obtain r1 t1 where wr: "writeSystemdUnit w s unit tr = (r1, t1)"
    by (cases "writeSystemdUnit w s unit tr")
  have r1: "r1 = None"
    using assms wr by (cases r1) (simp_all add: createUnits_unit_def)
  have c1: "calls t1 = calls tr
     @ map (\<lambda>dropin. WriteFile (DestDir s) (FileFromUnitDropin w unit dropin))
         (filter (\<lambda>dropin. DropIn_Contents dropin \<noteq> []) (SystemdUnit_DropIns unit))
     @ (if SystemdUnit_Contents unit \<noteq> [] then [WriteFile (DestDir s) (FileFromSystemdUnit w unit)] else [])"
    using writeSystemdUnit_calls [of w s unit tr] wr r1 by simp
  let ?enable = "if SystemdUnit_Enable unit
                 then LogOp (EnableUnit w (DestDir s) unit) ''enabling unit %q'' [S (SystemdUnit_Name unit)] t1
                 else (None, t1)"
  obtain r2 t2 where en: "?enable = (r2, t2)"
    by (cases ?enable)
  have r2: "r2 = None"
    using assms wr r1 en by (cases r2) (simp_all add: createUnits_unit_def)
  have c2: "calls t2 = calls t1
     @ (if SystemdUnit_Enable unit
        then [MkdirForFile (JoinPath w (DestDir s) [presetPath]),
              OpenFile (JoinPath w (DestDir s) [presetPath]) [O_RDWR, O_APPEND, O_CREATE] DefaultPresetPermissions,
              WriteString (JoinPath w (DestDir s) [presetPath]) (''enable '' @ SystemdUnit_Name unit @ [CHR 0x0A]),
              Close (JoinPath w (DestDir s) [presetPath])]
        else [])"
  proof (cases "SystemdUnit_Enable unit")
    case False
    with en show ?thesis by simp
  next
    case True
    let ?t = "t1 @ [(OpStart ''enabling unit %q'' [S (SystemdUnit_Name unit)], None)]"
    from True en r2 have "fst (EnableUnit w (DestDir s) unit ?t) = None"
      by (metis fst_LogOp fst_conv)
    then have "calls (snd (EnableUnit w (DestDir s) unit ?t)) = calls ?t
       @ [MkdirForFile (JoinPath w (DestDir s) [presetPath]),
          OpenFile (JoinPath w (DestDir s) [presetPath]) [O_RDWR, O_APPEND, O_CREATE] DefaultPresetPermissions,
          WriteString (JoinPath w (DestDir s) [presetPath]) (''enable '' @ SystemdUnit_Name unit @ [CHR 0x0A]),
          Close (JoinPath w (DestDir s) [presetPath])]"
      by (rule EnableUnit_calls)
    moreover from True en have "calls t2 = calls (snd (EnableUnit w (DestDir s) unit ?t))"
      by (metis calls_LogOp snd_conv)
    ultimately show ?thesis
      using True by simp
  qed
  let ?mask = "if SystemdUnit_Mask unit
               then LogOp (MaskUnit w (DestDir s) unit) ''masking unit %q'' [S (SystemdUnit_Name unit)] t2
               else (None, t2)"
  have round: "createUnits_unit w s unit tr = ?mask"
    using wr r1 en r2 by (simp add: createUnits_unit_def)
  have c3: "calls (snd ?mask) = calls t2
     @ (if SystemdUnit_Mask unit
        then [MkdirForFile (JoinPath w (DestDir s) [SystemdUnitsPath w, SystemdUnit_Name unit]),
              Symlink ''/dev/null'' (JoinPath w (DestDir s) [SystemdUnitsPath w, SystemdUnit_Name unit])]
        else [])"
  proof (cases "SystemdUnit_Mask unit")
    case False
    then show ?thesis by simp
  next
    case True
    let ?t = "t2 @ [(OpStart ''masking unit %q'' [S (SystemdUnit_Name unit)], None)]"
    from True assms round have "fst (MaskUnit w (DestDir s) unit ?t) = None"
      by (simp add: fst_LogOp)
    then have "calls (snd (MaskUnit w (DestDir s) unit ?t)) = calls ?t
       @ [MkdirForFile (JoinPath w (DestDir s) [SystemdUnitsPath w, SystemdUnit_Name unit]),
          Symlink ''/dev/null'' (JoinPath w (DestDir s) [SystemdUnitsPath w, SystemdUnit_Name unit])]"
      by (rule MaskUnit_calls)
    with True show ?thesis
      by (simp add: calls_LogOp)
  qed
  show ?thesis
    unfolding round c3 c2 c1 by (simp add: unit_calls_def)
qed

lemma writeSystemdUnit_dropins_quiet:
  "(\<forall>t ev. outcome w t ev = None) \<Longrightarrow> fst (writeSystemdUnit_dropins w s unit dropins tr) = None"
  by (induction dropins arbitrary: tr) (simp_all add: LogOp_call Let_def)

lemma createUnits_unit_quiet:
  assumes "\<forall>t ev. outcome w t ev = None"
  shows "fst (createUnits_unit w s unit tr) = None"
proof -
  have dropins: "fst (writeSystemdUnit_dropins w s unit dropins t) = None" for dropins t
    using assms by (rule writeSystemdUnit_dropins_quiet)
  obtain r t1 where run: "writeSystemdUnit_dropins w s unit (SystemdUnit_DropIns unit)
      (tr @ [(OpStart ''writing unit %q'' [S (SystemdUnit_Name unit)], None)]) = (r, t1)"
    by (cases "writeSystemdUnit_dropins w s unit (SystemdUnit_DropIns unit)
      (tr @ [(OpStart ''writing unit %q'' [S (SystemdUnit_Name unit)], None)])")
  have "r = None"
    using dropins [of "SystemdUnit_DropIns unit"
        "tr @ [(OpStart ''writing unit %q'' [S (SystemdUnit_Name unit)], None)]"] run
    by simp
  with run have "fst (writeSystemdUnit w s unit tr) = None"
    using assms by (simp add: writeSystemdUnit_def fst_LogOp LogOp_call Let_def)
  then have wr: "writeSystemdUnit w s unit tr \<noteq> (Some err, t)" for err t
    by (metis fst_conv option.distinct(1))
  have "fst (LogOp (EnableUnit w d unit) format a t) = None" for d format a t
    using assms by (simp add: fst_LogOp EnableUnit_def call_def Let_def)
  then have en: "LogOp (EnableUnit w d unit) format a t \<noteq> (Some err, t')" for d format a t err t'
    by (metis fst_conv option.distinct(1))
  have ma: "fst (LogOp (MaskUnit w d unit) format a t) = None" for d format a t
    using assms by (simp add: fst_LogOp MaskUnit_def call_def Let_def)
  show ?thesis
    by (auto simp add: createUnits_unit_def wr en ma split: prod.splits option.splits)
qed

text \<open>
  C7. When the round of the unit phase for a systemd unit returns no error, its calls are
  exactly: a file for every drop-in with non-empty contents (the empty ones are skipped),
  in order; the unit's own file if and only if its contents are non-empty; then, if
  \<open>enable\<close> is set, the line \<open>enable <name>\<close> written to the preset file, opened for
  append and created if absent with mode 0644; then, if \<open>mask\<close> is set, the symbolic link
  to \<open>/dev/null\<close> at the unit's path. Enable and mask do not depend on the contents. On a
  host where no call fails the round returns no error, and the loop runs the round for
  every unit it reaches.
\<close>

theorem createUnits_unit_writes_enables_masks:
  "(fst (createUnits_unit w s unit tr) = None \<longrightarrow>
      calls (snd (createUnits_unit w s unit tr)) = calls tr @ unit_calls w s unit)
   \<and> ((\<forall>t ev. outcome w t ev = None) \<longrightarrow> fst (createUnits_unit w s unit tr) = None)
   \<and> (\<forall>t1. createUnits_systemd w s us1 tr = (None, t1) \<longrightarrow>
         createUnits_systemd w s (us1 @ unit # us2) tr =
           (case createUnits_unit w s unit t1 of
              (Some err, t) \<Rightarrow> (Some err, t)
            | (None, t) \<Rightarrow> createUnits_systemd w s us2 t))"
proof (intro conjI impI allI)
  assume "fst (createUnits_unit w s unit tr) = None"
  then show "calls (snd (createUnits_unit w s unit tr)) = calls tr @ unit_calls w s unit"
    by (rule createUnits_unit_success_calls)
next
  assume "\<forall>t ev. outcome w t ev = None"
  then show "fst (createUnits_unit w s unit tr) = None"
    by (rule createUnits_unit_quiet)
next
  fix t1
  assume "createUnits_systemd w s us1 tr = (None, t1)"
  then show "createUnits_systemd w s (us1 @ unit # us2) tr =
           (case createUnits_unit w s unit t1 of
              (Some err, t) \<Rightarrow> (Some err, t)
            | (None, t) \<Rightarrow> createUnits_systemd w s us2 t)"
    by (simp add: createUnits_systemd_append)
qed

theorem createUnits_unit_writes_enables_masks_witness:
  "(\<forall>t ev. outcome host t ev = None)
   \<and> fst (createUnits_unit host root example_service []) = None
   \<and> SystemdUnit_Contents example_service = []
   \<and> calls (snd (createUnits_unit host root example_service [])) =
       [WriteFile ''/sysroot''
          (FileFromUnitDropin host example_service
             \<lparr>DropIn_Name = ''10-debug.conf'', DropIn_Contents = ''[Service]''\<rparr>),
        MkdirForFile (JoinPath host ''/sysroot'' [presetPath]),
        OpenFile (JoinPath host ''/sysroot'' [presetPath]) [O_RDWR, O_APPEND, O_CREATE]
          DefaultPresetPermissions,
        WriteString (JoinPath host ''/sysroot'' [presetPath]) (''enable example.service'' @ [CHR 0x0A]),
        Close (JoinPath host ''/sysroot'' [presetPath]),
        MkdirForFile (JoinPath host ''/sysroot'' [SystemdUnitsPath host, ''example.service'']),
        Symlink ''/dev/null'' (JoinPath host ''/sysroot'' [SystemdUnitsPath host, ''example.service''])]
   \<and> createUnits_systemd host root [] [] = (None, [])
   \<and> fst (createUnits_systemd host root ([] @ example_service # []) []) = None"
proof -
  note inst = createUnits_unit_writes_enables_masks [of host root example_service "[]" "[]" "[]"]
  have quiet: "\<forall>t ev. outcome host t ev = None"
    by (simp add: host_def)
  with inst have ok: "fst (createUnits_unit host root example_service []) = None"
    by blast
  have contents: "SystemdUnit_Contents example_service = []"
    by (simp add: example_service_def)
  have plan: "unit_calls host root example_service =
       [WriteFile ''/sysroot''
          (FileFromUnitDropin host example_service
             \<lparr>DropIn_Name = ''10-debug.conf'', DropIn_Contents = ''[Service]''\<rparr>),
        MkdirForFile (JoinPath host ''/sysroot'' [presetPath]),
        OpenFile (JoinPath host ''/sysroot'' [presetPath]) [O_RDWR, O_APPEND, O_CREATE]
          DefaultPresetPermissions,
        WriteString (JoinPath host ''/sysroot'' [presetPath]) (''enable example.service'' @ [CHR 0x0A]),
        Close (JoinPath host ''/sysroot'' [presetPath]),
        MkdirForFile (JoinPath host ''/sysroot'' [SystemdUnitsPath host, ''example.service'']),
        Symlink ''/dev/null'' (JoinPath host ''/sysroot'' [SystemdUnitsPath host, ''example.service''])]"
    by (simp add: unit_calls_def root_def example_service_def)
  have calls: "calls (snd (createUnits_unit host root example_service [])) =
      unit_calls host root example_service"
    using inst ok by (simp add: calls_def)
  have nil: "createUnits_systemd host root [] [] = (None, [])"
    by simp
  have loop: "fst (createUnits_systemd host root ([] @ example_service # []) []) = None"
  proof -
    have "createUnits_systemd host root ([] @ example_service # []) [] =
        (case createUnits_unit host root example_service [] of
           (Some err, t) \<Rightarrow> (Some err, t)
         | (None, t) \<Rightarrow> createUnits_systemd host root [] t)"
      using inst nil by blast
    with ok show ?thesis
      by (cases "createUnits_unit host root example_service []") simp
  qed
  show ?thesis
    using quiet ok contents calls nil loop unfolding plan by (intro conjI)
qed


end
